theory Spec2Isabelle
  imports Complex_Main "HOL-Library.Word"
begin

unbundle bit_operations_syntax

section \<open>The applespi driver: framing, reassembly and command queuing\<close>

text \<open>
  A shallow embedding of \<^verbatim>\<open>drivers/applespi/applespi.c\<close>: the packet and message
  layout, the command builder and sender \<^verbatim>\<open>applespi_send_cmd_msg\<close>, the completion
  path \<^verbatim>\<open>applespi_msg_complete\<close>, the receive path \<^verbatim>\<open>applespi_got_data\<close>, the GPE
  handler \<^verbatim>\<open>applespi_notify\<close> and \<^verbatim>\<open>applespi_resume\<close>.

  The C code mutates one \<^verbatim>\<open>struct applespi_data\<close> under a spinlock; here every function
  takes the state and returns the new one. Calls that leave the driver (submitting an spi
  message, waking the drain waiters, the rate-limited warnings, the input handlers) are
  appended to the \<open>trace\<close> field, oldest first. The value that \<^verbatim>\<open>spi_async\<close> returns is
  decided outside the driver and is an argument \<open>sts\<close> of every function that can reach
  the call.
\<close>

subsection \<open>Machine integers and byte order\<close>

type_synonym u8 = "8 word"
type_synonym u16 = "16 word"
type_synonym u32 = "32 word"

definition cpu_to_le16 :: "u16 \<Rightarrow> u8 list" where
  "cpu_to_le16 x = [ucast x, ucast (drop_bit 8 x)]"

definition le16_to_cpu :: "u8 list \<Rightarrow> nat \<Rightarrow> u16" where
  \<comment> \<open>the \<^verbatim>\<open>__le16\<close> stored at byte offset \<open>i\<close> of a buffer\<close>
  "le16_to_cpu buf i = push_bit 8 (ucast (buf ! Suc i)) OR ucast (buf ! i)"

subsection \<open>The checksum\<close>

text \<open>
  Modelled from the spec: \<^verbatim>\<open>crc16\<close> of \<^verbatim>\<open>linux/crc16.h\<close> is called by the driver but
  defined outside \<^verbatim>\<open>src/\<close>. The spec names it the standard reflected 16-bit CRC routine
  whose value over a structure followed by its own little-endian checksum is 0. The
  kernel routine consumes one byte at a time, least significant bit first, with the
  reflected polynomial \<open>0xA001\<close>; the table of the kernel holds, for every byte, the
  result of the eight shifts written out here.
\<close>

fun crc16_shift :: "nat \<Rightarrow> u16 \<Rightarrow> u16" where
  "crc16_shift 0 c = c"
| "crc16_shift (Suc n) c =
     crc16_shift n (if bit c 0 then drop_bit 1 c XOR 0xA001 else drop_bit 1 c)"

definition crc16_byte :: "u16 \<Rightarrow> u8 \<Rightarrow> u16" where
  "crc16_byte crc data = crc16_shift 8 (crc XOR ucast data)"

definition crc16 :: "u16 \<Rightarrow> u8 list \<Rightarrow> u16" where
  "crc16 crc buffer = foldl crc16_byte crc buffer"

definition append_crc16 :: "u8 list \<Rightarrow> u8 list" where
  \<comment> \<open>a structure followed by the little-endian crc over it, as the sender stores it\<close>
  "append_crc16 xs = xs @ cpu_to_le16 (crc16 0 xs)"

subsection \<open>Constants\<close>

abbreviation (input) APPLESPI_PACKET_SIZE :: nat where "APPLESPI_PACKET_SIZE \<equiv> 256"
abbreviation (input) APPLESPI_STATUS_SIZE :: nat where "APPLESPI_STATUS_SIZE \<equiv> 4"
abbreviation (input) PACKET_TYPE_READ :: u8 where "PACKET_TYPE_READ \<equiv> 0x20"
abbreviation (input) PACKET_TYPE_WRITE :: u8 where "PACKET_TYPE_WRITE \<equiv> 0x40"
abbreviation (input) PACKET_DEV_KEYB :: u8 where "PACKET_DEV_KEYB \<equiv> 0x01"
abbreviation (input) PACKET_DEV_TPAD :: u8 where "PACKET_DEV_TPAD \<equiv> 0x02"
abbreviation (input) MAX_FINGERS :: u8 where "MAX_FINGERS \<equiv> 11"
abbreviation (input) MSG_HEADER_SIZE :: u32 where "MSG_HEADER_SIZE \<equiv> 8"
abbreviation (input) PACKET_DATA_SIZE :: u32 where "PACKET_DATA_SIZE \<equiv> 246"
abbreviation (input) MAX_MSG_SIZE :: u32 where
  \<comment> \<open>\<^verbatim>\<open>MAX_PKTS_PER_MSG * APPLESPI_PACKET_SIZE\<close>, the size of \<^verbatim>\<open>msg_buf\<close>\<close>
  "MAX_MSG_SIZE \<equiv> 512"
abbreviation (input) DBG_CMD_TP_INI :: u32 where "DBG_CMD_TP_INI \<equiv> 1"
abbreviation (input) DBG_CMD_BL :: u32 where "DBG_CMD_BL \<equiv> 2"
abbreviation (input) DBG_CMD_CL :: u32 where "DBG_CMD_CL \<equiv> 4"

definition MIN_KBD_BL_LEVEL :: u32 where "MIN_KBD_BL_LEVEL = 32"
definition MAX_KBD_BL_LEVEL :: u32 where "MAX_KBD_BL_LEVEL = 255"
definition KBD_BL_LEVEL_SCALE :: u32 where "KBD_BL_LEVEL_SCALE = 1000000"
definition KBD_BL_LEVEL_ADJ :: u32 where
  "KBD_BL_LEVEL_ADJ = ((MAX_KBD_BL_LEVEL - MIN_KBD_BL_LEVEL) * KBD_BL_LEVEL_SCALE) div 255"

subsection \<open>The backlight level\<close>

text \<open>
  The value \<^verbatim>\<open>applespi_set_bl_level\<close> stores in \<^verbatim>\<open>want_bl_level\<close> for a brightness
  \<open>v\<close>. The C expression is evaluated in \<^verbatim>\<open>int\<close>; the led core passes brightness values
  up to \<^verbatim>\<open>LED_FULL = 255\<close>, for which no product leaves the range where signed and
  unsigned 32-bit arithmetic agree.
\<close>

definition device_level :: "u32 \<Rightarrow> u32" where
  "device_level v =
     (if v = 0 then v
      else (v * KBD_BL_LEVEL_ADJ) div KBD_BL_LEVEL_SCALE + MIN_KBD_BL_LEVEL)"

text \<open>
  The mapping in the words of the spec, for comparison:
  \<open>0\<close> for \<open>0\<close>, else \<open>round (v * (MAX_DEV - MIN_DEV) / 255) + MIN_DEV\<close>.
\<close>

definition device_level_spec :: "nat \<Rightarrow> int" where
  "device_level_spec v =
     (if v = 0 then 0 else round (real v * (255 - 32) / 255) + 32)"

subsection \<open>Packets and messages\<close>

text \<open>
  \<^verbatim>\<open>struct spi_packet\<close> is 256 bytes: flags (byte 0), device (1), offset (2-3),
  remaining (4-5), length (6-7), 246 bytes of data (8-253) and the crc (254-255).
  \<^verbatim>\<open>struct message\<close> starts with an 8-byte header: type (0-1), zero (2), counter (3),
  rsp_buf_len (4-5), length (6-7). Buffers are byte lists; the driver allocates
  \<^verbatim>\<open>rx_buffer\<close> and \<^verbatim>\<open>tx_buffer\<close> with 256 bytes and \<^verbatim>\<open>msg_buf\<close> with 512.
\<close>

definition pkt_flags :: "u8 list \<Rightarrow> u8" where "pkt_flags p = p ! 0"
definition pkt_device :: "u8 list \<Rightarrow> u8" where "pkt_device p = p ! 1"
definition pkt_offset :: "u8 list \<Rightarrow> u16" where "pkt_offset p = le16_to_cpu p 2"
definition pkt_remaining :: "u8 list \<Rightarrow> u16" where "pkt_remaining p = le16_to_cpu p 4"
definition pkt_length :: "u8 list \<Rightarrow> u16" where "pkt_length p = le16_to_cpu p 6"
definition pkt_data :: "u8 list \<Rightarrow> u8 list" where "pkt_data p = take 246 (drop 8 p)"

definition msg_type :: "u8 list \<Rightarrow> u16" where "msg_type m = le16_to_cpu m 0"
definition msg_counter :: "u8 list \<Rightarrow> u8" where "msg_counter m = m ! 3"
definition msg_rsp_buf_len :: "u8 list \<Rightarrow> u16" where "msg_rsp_buf_len m = le16_to_cpu m 4"
definition msg_length :: "u8 list \<Rightarrow> u16" where "msg_length m = le16_to_cpu m 6"

definition spi_packet :: "u8 \<Rightarrow> u8 \<Rightarrow> u16 \<Rightarrow> u16 \<Rightarrow> u16 \<Rightarrow> u8 list \<Rightarrow> u8 list" where
  \<comment> \<open>a zeroed packet with its header fields and data written (at most 246 bytes of
      data), and the crc over the first 254 bytes stored in the last two\<close>
  "spi_packet flags device off rem len data =
     append_crc16
       ([flags, device] @ cpu_to_le16 off @ cpu_to_le16 rem @ cpu_to_le16 len
        @ data @ replicate (246 - length data) 0)"

subsection \<open>The driver state\<close>

datatype warning =
    Crc_mismatch
  | Invalid_packet_length
  | Unexpected_offset u32 u32
  | Message_too_large u32
  | Invalid_message_length
  | Too_many_fingers
  | Error_queueing_write int
  | Error_queueing_read int
  | Error_reading int
  | Error_writing

datatype effect =
    Spi_async_write "u8 list" int
  | Spi_async_read int
  | Wake_up_all
  | Warn warning
  | Keyboard_event "u8 list"
  | Tp_state "u8 list"
  | Cmd_response "u8 list"
  | Finish_gpe

text \<open>
  The fields of \<^verbatim>\<open>struct applespi_data\<close> that the framing and queuing code reads or
  writes. \<open>Spi_async_write p sts\<close> records a call of \<^verbatim>\<open>applespi_async\<close> on the write
  message with \<^verbatim>\<open>tx_buffer\<close> holding \<open>p\<close>, which returned \<open>sts\<close> (0 means the
  transfer was queued); \<open>Spi_async_read sts\<close> the same for the read message.
\<close>

record applespi_data =
  tx_buffer :: "u8 list"
  tx_status :: "u8 list"
  rx_buffer :: "u8 list"
  msg_buf :: "u8 list"
  saved_msg_len :: u32
  want_init_cmd :: bool
  want_cl_led_on :: bool
  have_cl_led_on :: bool
  want_bl_level :: u32
  have_bl_level :: u32
  cmd_msg_cntr :: u32
  cmd_msg_queued :: bool
  cmd_log_mask :: u32
  drain :: bool
  read_active :: bool
  write_active :: bool
  trace :: "effect list"

definition emit :: "effect \<Rightarrow> applespi_data \<Rightarrow> applespi_data" where
  "emit e a = a\<lparr>trace := trace a @ [e]\<rparr>"

subsection \<open>Sending commands\<close>

definition applespi_check_write_status :: "u8 list \<Rightarrow> int \<Rightarrow> bool" where
  "applespi_check_write_status status sts =
     (if sts < 0 then False
      else if take APPLESPI_STATUS_SIZE status \<noteq> [0xac, 0x27, 0x68, 0xd5] then False
      else True)"

definition finalize_packet ::
  "int \<Rightarrow> u8 \<Rightarrow> u16 \<Rightarrow> u8 list \<Rightarrow> applespi_data \<Rightarrow> int \<times> applespi_data" where
  \<comment> \<open>the tail of \<^verbatim>\<open>applespi_send_cmd_msg\<close> from "finalize packet" on; \<open>payload\<close> is the
      command structure without its crc, so \<^verbatim>\<open>msg_len\<close> is its length plus 2\<close>
  "finalize_packet sts device type payload a =
     (let msg_len = word_of_nat (length payload + 2) :: u16;
          counter = ucast (cmd_msg_cntr a AND 0xff) :: u8;
          header = cpu_to_le16 type @ [0, counter]
                   @ cpu_to_le16 (msg_len - 2) @ cpu_to_le16 (msg_len - 2);
          message = append_crc16 (header @ payload);
          packet = spi_packet PACKET_TYPE_WRITE device 0 0 (8 + msg_len) message;
          a1 = emit (Spi_async_write packet sts)
                 (a\<lparr>tx_buffer := packet, cmd_msg_cntr := cmd_msg_cntr a + 1\<rparr>)
      in if sts \<noteq> 0 then (sts, emit (Warn (Error_queueing_write sts)) a1)
         else (sts, a1\<lparr>cmd_msg_queued := True, write_active := True\<rparr>))"

definition applespi_send_cmd_msg :: "int \<Rightarrow> applespi_data \<Rightarrow> int \<times> applespi_data" where
  "applespi_send_cmd_msg sts a =
     (if drain a then (0, a)
      else if cmd_msg_queued a then (0, a)
      else
        let a0 = a\<lparr>tx_buffer := replicate APPLESPI_PACKET_SIZE 0\<rparr> in
        if want_init_cmd a0 then
          finalize_packet sts PACKET_DEV_TPAD 0x0252 (cpu_to_le16 0x0102)
            (a0\<lparr>want_init_cmd := False, cmd_log_mask := DBG_CMD_TP_INI\<rparr>)
        else if want_cl_led_on a0 \<noteq> have_cl_led_on a0 then
          (let a1 = a0\<lparr>have_cl_led_on := want_cl_led_on a0, cmd_log_mask := DBG_CMD_CL\<rparr>
           in finalize_packet sts PACKET_DEV_KEYB 0x0151
                [0x01, if have_cl_led_on a1 then 2 else 0] a1)
        else if want_bl_level a0 \<noteq> have_bl_level a0 then
          (let a1 = a0\<lparr>have_bl_level := want_bl_level a0, cmd_log_mask := DBG_CMD_BL\<rparr>
           in finalize_packet sts PACKET_DEV_KEYB 0xB051
                (cpu_to_le16 0x01B0 @ cpu_to_le16 (ucast (have_bl_level a1))
                 @ (if have_bl_level a1 > 0 then cpu_to_le16 0x01F4 else cpu_to_le16 0x0001))
                a1)
        else (0, a0))"

definition applespi_msg_complete ::
  "int \<Rightarrow> bool \<Rightarrow> bool \<Rightarrow> applespi_data \<Rightarrow> applespi_data" where
  "applespi_msg_complete sts is_write_msg is_read_compl a =
     (let a1 = (if is_read_compl then a\<lparr>read_active := False\<rparr> else a);
          a2 = (if is_write_msg then a1\<lparr>write_active := False\<rparr> else a1);
          a3 = (if drain a2 \<and> \<not> write_active a2 then emit Wake_up_all a2 else a2)
      in if is_write_msg
         then snd (applespi_send_cmd_msg sts (a3\<lparr>cmd_msg_queued := False\<rparr>))
         else a3)"

definition applespi_async_write_complete ::
  "int \<Rightarrow> int \<Rightarrow> applespi_data \<Rightarrow> applespi_data" where
  \<comment> \<open>\<open>status\<close> is \<^verbatim>\<open>wr_m.status\<close>, set by the spi core before the callback runs\<close>
  "applespi_async_write_complete sts status a =
     (if \<not> applespi_check_write_status (tx_status a) status
      then applespi_msg_complete sts True False (emit (Warn Error_writing) a)
      else a)"

definition applespi_init :: "int \<Rightarrow> applespi_data \<Rightarrow> applespi_data" where
  "applespi_init sts a = snd (applespi_send_cmd_msg sts (a\<lparr>want_init_cmd := True\<rparr>))"

definition applespi_set_capsl_led :: "bool \<Rightarrow> int \<Rightarrow> applespi_data \<Rightarrow> int \<times> applespi_data" where
  "applespi_set_capsl_led capslock_on sts a =
     applespi_send_cmd_msg sts (a\<lparr>want_cl_led_on := capslock_on\<rparr>)"

definition applespi_set_bl_level :: "u32 \<Rightarrow> int \<Rightarrow> applespi_data \<Rightarrow> applespi_data" where
  "applespi_set_bl_level v sts a =
     snd (applespi_send_cmd_msg sts (a\<lparr>want_bl_level := device_level v\<rparr>))"

subsection \<open>Receiving packets\<close>

definition applespi_verify_crc :: "u8 list \<Rightarrow> bool" where
  \<comment> \<open>the warning of the C function is emitted by its callers below\<close>
  "applespi_verify_crc buffer = (crc16 0 buffer = 0)"

text \<open>
  In \<^verbatim>\<open>applespi_got_data\<close> the pointer \<^verbatim>\<open>message\<close> refers either to the data area of
  the packet in \<^verbatim>\<open>rx_buffer\<close> or to \<^verbatim>\<open>msg_buf\<close>.
\<close>

datatype msg_loc = In_packet | In_msg_buf

definition the_message :: "msg_loc \<Rightarrow> applespi_data \<Rightarrow> u8 list" where
  "the_message loc a =
     (case loc of In_packet \<Rightarrow> pkt_data (rx_buffer a) | In_msg_buf \<Rightarrow> msg_buf a)"

definition store_byte :: "msg_loc \<Rightarrow> nat \<Rightarrow> u8 \<Rightarrow> applespi_data \<Rightarrow> applespi_data" where
  "store_byte loc i v a =
     (case loc of
        In_packet \<Rightarrow> a\<lparr>rx_buffer := (rx_buffer a)[8 + i := v]\<rparr>
      | In_msg_buf \<Rightarrow> a\<lparr>msg_buf := (msg_buf a)[i := v]\<rparr>)"

definition memcpy :: "u8 list \<Rightarrow> nat \<Rightarrow> u8 list \<Rightarrow> nat \<Rightarrow> u8 list" where
  \<comment> \<open>\<^verbatim>\<open>memcpy(dst + off, src, len)\<close>, for \<open>off + len\<close> within \<open>dst\<close> and \<open>len\<close> within \<open>src\<close>\<close>
  "memcpy dst off src len = take off dst @ take len src @ drop (off + len) dst"

datatype outcome = Incomplete | Rejected warning | Complete msg_loc u32

definition verify_message :: "msg_loc \<Rightarrow> u32 \<Rightarrow> applespi_data \<Rightarrow> outcome \<times> applespi_data" where
  \<comment> \<open>"got complete message - verify": the declared length, then the message crc\<close>
  "verify_message loc msg_len a =
     (let message = the_message loc a in
      if ucast (msg_length message) \<noteq> msg_len - MSG_HEADER_SIZE - 2
        then (Rejected Invalid_message_length, a)
      else if \<not> applespi_verify_crc (take (unat msg_len) message)
        then (Rejected Crc_mismatch, a)
      else (Complete loc msg_len, a))"

definition applespi_reassemble :: "applespi_data \<Rightarrow> outcome \<times> applespi_data" where
  \<comment> \<open>\<^verbatim>\<open>applespi_got_data\<close> from the packet header to the verified message: every
      \<^verbatim>\<open>goto cleanup\<close> with its warning is a \<open>Rejected\<close>, the early \<^verbatim>\<open>return\<close> on
      \<^verbatim>\<open>rem > 0\<close> is \<open>Incomplete\<close>\<close>
  "applespi_reassemble a =
     (let packet = rx_buffer a;
          off = ucast (pkt_offset packet) :: u32;
          rem = ucast (pkt_remaining packet) :: u32;
          len = ucast (pkt_length packet) :: u32
      in if len > PACKET_DATA_SIZE then (Rejected Invalid_packet_length, a)
         else if rem > 0 \<or> off > 0 then
           (if off \<noteq> saved_msg_len a
              then (Rejected (Unexpected_offset off (saved_msg_len a)), a)
            else if off + rem > MAX_MSG_SIZE then (Rejected (Message_too_large (off + rem)), a)
            else if off + len > MAX_MSG_SIZE then (Rejected (Message_too_large (off + len)), a)
            else
              let a1 = a\<lparr>msg_buf := memcpy (msg_buf a) (unat off) (pkt_data packet) (unat len),
                          saved_msg_len := saved_msg_len a + len\<rparr>
              in if rem > 0 then (Incomplete, a1)
                 else verify_message In_msg_buf (saved_msg_len a1) (a1\<lparr>saved_msg_len := 0\<rparr>))
         else verify_message In_packet len (a\<lparr>saved_msg_len := 0\<rparr>))"

definition applespi_handle_message :: "msg_loc \<Rightarrow> u32 \<Rightarrow> applespi_data \<Rightarrow> applespi_data" where
  \<comment> \<open>"handle message": the keyboard, touchpad and command-response handlers are recorded
      in the trace with the bytes of the message they are given\<close>
  "applespi_handle_message loc msg_len a =
     (let packet = rx_buffer a;
          message = the_message loc a;
          bytes = take (unat msg_len) message
      in if pkt_flags packet = PACKET_TYPE_READ \<and> pkt_device packet = PACKET_DEV_KEYB
           then emit (Keyboard_event bytes) a
         else if pkt_flags packet = PACKET_TYPE_READ \<and> pkt_device packet = PACKET_DEV_TPAD then
           (let number_of_fingers = message ! 38;
                tp_len = 48 + unat number_of_fingers * 30
            in if unat (msg_length message) + 2 \<noteq> tp_len
                 then emit (Warn Invalid_message_length) a
               else if number_of_fingers > MAX_FINGERS then
                 (let a1 = store_byte loc 38 MAX_FINGERS (emit (Warn Too_many_fingers) a)
                  in emit (Tp_state (take (unat msg_len) (the_message loc a1))) a1)
               else emit (Tp_state bytes) a)
         else if pkt_flags packet = PACKET_TYPE_WRITE
           then emit (Cmd_response bytes) a
         else a)"

definition applespi_got_data :: "int \<Rightarrow> applespi_data \<Rightarrow> applespi_data" where
  "applespi_got_data sts a =
     (if \<not> applespi_verify_crc (take APPLESPI_PACKET_SIZE (rx_buffer a)) then
        (let a0 = emit (Warn Crc_mismatch) a
         in if drain a0
            then emit Wake_up_all (a0\<lparr>read_active := False, write_active := False\<rparr>)
            else a0)
      else
        (case applespi_reassemble a of
           (Incomplete, a1) \<Rightarrow> a1
         | (Rejected w, a1) \<Rightarrow>
             applespi_msg_complete sts (pkt_flags (rx_buffer a1) = PACKET_TYPE_WRITE) True
               (emit (Warn w) a1)
         | (Complete loc msg_len, a1) \<Rightarrow>
             (let a2 = applespi_handle_message loc msg_len a1
              in applespi_msg_complete sts (pkt_flags (rx_buffer a2) = PACKET_TYPE_WRITE) True
                   a2)))"

definition applespi_async_read_complete :: "int \<Rightarrow> int \<Rightarrow> applespi_data \<Rightarrow> applespi_data" where
  \<comment> \<open>\<open>status\<close> is \<^verbatim>\<open>rd_m.status\<close>; the transfer has filled \<^verbatim>\<open>rx_buffer\<close>\<close>
  "applespi_async_read_complete sts status a =
     emit Finish_gpe
       (if status < 0 then emit (Warn (Error_reading status)) a
        else applespi_got_data sts a)"

definition applespi_notify :: "int \<Rightarrow> applespi_data \<Rightarrow> applespi_data" where
  "applespi_notify sts a =
     (let a1 = emit (Spi_async_read sts) a
      in if sts \<noteq> 0 then emit (Warn (Error_queueing_read sts)) a1
         else a1\<lparr>read_active := True\<rparr>)"

subsection \<open>Suspend and resume\<close>

definition applespi_drain_begin :: "applespi_data \<Rightarrow> applespi_data" where
  \<comment> \<open>the assignment that opens \<^verbatim>\<open>applespi_suspend\<close> and \<^verbatim>\<open>applespi_remove\<close>; the waits
      that follow it block the caller and change no field\<close>
  "applespi_drain_begin a = a\<lparr>drain := True\<rparr>"

definition applespi_resume_flags :: "applespi_data \<Rightarrow> applespi_data" where
  \<comment> \<open>"ensure our flags and state reflect a newly resumed device"\<close>
  "applespi_resume_flags a =
     a\<lparr>drain := False, have_cl_led_on := False, have_bl_level := 0,
       cmd_msg_queued := False, read_active := False, write_active := False\<rparr>"

definition applespi_resume :: "int \<Rightarrow> applespi_data \<Rightarrow> applespi_data" where
  \<comment> \<open>re-enabling the GPE and the SPI interface touches no field of the state\<close>
  "applespi_resume sts a = applespi_init sts (applespi_resume_flags a)"

subsection \<open>The driver as a transition system\<close>

text \<open>
  The entry points through which the kernel reaches the state. A completion carries what
  the hardware produced: the status of the spi message and the bytes read.
\<close>

datatype input =
    Init int
  | Set_capsl_led bool int
  | Set_bl_level u32 int
  | Notify int
  | Async_write_complete int "u8 list" int
  | Async_read_complete int "u8 list" int
  | Drain_begin
  | Resume int

fun step :: "input \<Rightarrow> applespi_data \<Rightarrow> applespi_data" where
  "step (Init sts) a = applespi_init sts a"
| "step (Set_capsl_led on sts) a = snd (applespi_set_capsl_led on sts a)"
| "step (Set_bl_level v sts) a = applespi_set_bl_level v sts a"
| "step (Notify sts) a = applespi_notify sts a"
| "step (Async_write_complete status st sts) a =
     applespi_async_write_complete sts status (a\<lparr>tx_status := st\<rparr>)"
| "step (Async_read_complete status rx sts) a =
     applespi_async_read_complete sts status (a\<lparr>rx_buffer := rx\<rparr>)"
| "step Drain_begin a = applespi_drain_begin a"
| "step (Resume sts) a = applespi_resume sts a"

definition writes_queued :: "applespi_data \<Rightarrow> u8 list list" where
  \<comment> \<open>the packets of the write transfers that \<^verbatim>\<open>spi_async\<close> accepted, oldest first\<close>
  "writes_queued a = [p. Spi_async_write p sts \<leftarrow> trace a, sts = 0]"

definition reads_queued :: "applespi_data \<Rightarrow> nat" where
  "reads_queued a = length [sts. Spi_async_read sts \<leftarrow> trace a, sts = 0]"

definition applespi_alloc :: applespi_data where
  \<comment> \<open>the state \<^verbatim>\<open>applespi_probe\<close> allocates: the structure zeroed by \<^verbatim>\<open>devm_kzalloc\<close>,
      the four buffers with their sizes (their first contents are not read; zero here)\<close>
  "applespi_alloc =
     \<lparr>tx_buffer = replicate 256 0, tx_status = replicate 4 0, rx_buffer = replicate 256 0,
      msg_buf = replicate 512 0, saved_msg_len = 0, want_init_cmd = False,
      want_cl_led_on = False, have_cl_led_on = False, want_bl_level = 0, have_bl_level = 0,
      cmd_msg_cntr = 0, cmd_msg_queued = False, cmd_log_mask = 0, drain = False,
      read_active = False, write_active = False, trace = []\<rparr>"

definition run :: "input list \<Rightarrow> applespi_data \<Rightarrow> applespi_data" where
  "run es a = foldl (\<lambda>s e. step e s) a es"

definition pending :: "applespi_data \<Rightarrow> bool" where
  \<comment> \<open>some branch of the command builder applies\<close>
  "pending a \<longleftrightarrow>
     want_init_cmd a \<or> want_cl_led_on a \<noteq> have_cl_led_on a
     \<or> want_bl_level a \<noteq> have_bl_level a"

definition ends_write_exchange :: "input \<Rightarrow> bool" where
  \<comment> \<open>the inputs that can reach the assignment \<^verbatim>\<open>cmd_msg_queued = false\<close>: a write
      completion that failed, a read completion whose packet carries the write flag, and
      resume\<close>
  "ends_write_exchange e =
     (case e of
        Async_write_complete status st sts \<Rightarrow> \<not> applespi_check_write_status st status
      | Async_read_complete status rx sts \<Rightarrow> 0 \<le> status \<and> pkt_flags rx = PACKET_TYPE_WRITE
      | Resume sts \<Rightarrow> True
      | _ \<Rightarrow> False)"

subsection \<open>States used as examples\<close>

definition bad_crc_frame :: "u8 list" where
  \<comment> \<open>256 bytes whose crc is not 0\<close>
  "bad_crc_frame = replicate 255 0 @ [1]"

definition stalled :: applespi_data where
  \<comment> \<open>the init write is queued, suspend begins, the device signals and the packet read
      arrives corrupted\<close>
  "stalled =
     run [Init 0, Drain_begin, Notify 0, Async_read_complete 0 bad_crc_frame 0] applespi_alloc"

definition all_pending :: applespi_data where
  "all_pending =
     applespi_alloc\<lparr>want_init_cmd := True, want_cl_led_on := True, want_bl_level := 119\<rparr>"

definition bl_wanted :: applespi_data where
  "bl_wanted = applespi_alloc\<lparr>want_bl_level := 119\<rparr>"

definition capsl_wanted :: applespi_data where
  "capsl_wanted = applespi_alloc\<lparr>want_cl_led_on := True\<rparr>"

definition suspended :: applespi_data where
  "suspended = applespi_alloc\<lparr>want_cl_led_on := True, have_cl_led_on := True,
     want_bl_level := 119, have_bl_level := 119, drain := True\<rparr>"

definition two_packet_msg :: "u8 list" where
  \<comment> \<open>a touchpad message of 300 bytes: header, 290 bytes, crc\<close>
  "two_packet_msg =
     append_crc16 (cpu_to_le16 0x0210 @ [0, 7] @ cpu_to_le16 0 @ cpu_to_le16 290
                   @ replicate 290 0x5a)"

definition frag1 :: "u8 list" where
  "frag1 = spi_packet PACKET_TYPE_READ PACKET_DEV_TPAD 0 54 246 (take 246 two_packet_msg)"

definition frag2 :: "u8 list" where
  "frag2 = spi_packet PACKET_TYPE_READ PACKET_DEV_TPAD 246 0 54 (drop 246 two_packet_msg)"

definition stray_frame :: "u8 list" where
  "stray_frame = spi_packet PACKET_TYPE_READ PACKET_DEV_TPAD 100 0 10 []"

definition warnings :: "applespi_data \<Rightarrow> warning list" where
  "warnings a = [w. Warn w \<leftarrow> trace a]"

definition half_received :: applespi_data where
  "half_received = step (Async_read_complete 0 frag1 0) applespi_alloc"

definition after_stray :: applespi_data where
  "after_stray = step (Async_read_complete 0 stray_frame 0) half_received"

definition after_bad_crc :: applespi_data where
  "after_bad_crc = step (Async_read_complete 0 bad_crc_frame 0) half_received"

definition reading :: applespi_data where
  "reading = (applespi_notify 0 applespi_alloc)\<lparr>rx_buffer := bad_crc_frame\<rparr>"

definition sent_kinds :: "applespi_data \<Rightarrow> (u16 \<times> u8) list" where
  "sent_kinds a = map (\<lambda>p. (msg_type (pkt_data p), msg_counter (pkt_data p))) (writes_queued a)"

definition counters_demo :: applespi_data where
  "counters_demo =
     applespi_msg_complete 0 True True
       (applespi_init 0
         (applespi_msg_complete 0 True True
           (snd (applespi_set_capsl_led True 0 (applespi_init 0 applespi_alloc)))))"

definition reading_stray :: applespi_data where
  "reading_stray = (applespi_notify 0 applespi_alloc)\<lparr>rx_buffer := stray_frame\<rparr>"

definition reading_frag1 :: applespi_data where
  "reading_frag1 = (applespi_notify 0 applespi_alloc)\<lparr>rx_buffer := frag1\<rparr>"

definition bl_suspended :: applespi_data where
  "bl_suspended = applespi_alloc\<lparr>want_bl_level := 119, have_bl_level := 119, drain := True\<rparr>"

section \<open>Properties\<close>

subsection \<open>The checksum of a structure followed by its own checksum\<close>

lemma crc16_shift_low_zero: "take_bit n c = 0 \<Longrightarrow> crc16_shift n c = drop_bit n c"
proof (induction n arbitrary: c)
  case 0
  then show ?case by simp
next
  case (Suc n)
  have b0: "\<not> bit c 0"
    using Suc.prems by (metis bit_of_bool_iff bit_take_bit_iff of_bool_eq(1) zero_less_Suc)
  have t: "take_bit n (drop_bit 1 c) = 0"
    using Suc.prems by (metis One_nat_def diff_Suc_1' drop_bit_of_0 drop_bit_take_bit)
  have "crc16_shift (Suc n) c = crc16_shift n (drop_bit 1 c)"
    using b0 by simp
  also have "\<dots> = drop_bit n (drop_bit 1 c)"
    using t by (rule Suc.IH)
  also have "\<dots> = drop_bit (Suc n) c"
    by simp
  finally show ?case .
qed

lemma crc16_shift_zero: "crc16_shift n 0 = 0"
  by (induction n) simp_all

lemma crc16_byte_low: "crc16_byte c (ucast c) = drop_bit 8 c"
proof -
  have t: "take_bit 8 (c XOR ucast (ucast c :: u8)) = 0"
    by (rule bit_word_eqI) (auto simp: bit_simps)
  have d: "drop_bit 8 (c XOR ucast (ucast c :: u8)) = drop_bit 8 c"
    by (rule bit_word_eqI) (auto simp: bit_simps)
  show ?thesis
    unfolding crc16_byte_def using crc16_shift_low_zero [OF t] d by simp
qed

lemma crc16_byte_high: "crc16_byte (drop_bit 8 c) (ucast (drop_bit 8 c)) = 0"
proof -
  have "drop_bit 8 c XOR ucast (ucast (drop_bit 8 c) :: u8) = 0"
    by (rule bit_word_eqI) (auto simp: bit_simps dest: bit_imp_le_length)
  then show ?thesis
    by (simp add: crc16_byte_def crc16_shift_zero)
qed

lemma crc16_append: "crc16 c (xs @ ys) = crc16 (crc16 c xs) ys"
  by (simp add: crc16_def)

lemma crc16_residue: "crc16 c (xs @ cpu_to_le16 (crc16 c xs)) = 0"
  by (simp add: crc16_append)
     (simp add: crc16_def cpu_to_le16_def crc16_byte_low crc16_byte_high)

lemma crc16_zeros: "crc16 0 (replicate n 0) = 0"
proof (induction n)
  case 0
  show ?case by (simp add: crc16_def)
next
  case (Suc n)
  have "crc16_byte 0 0 = 0"
    by (simp add: crc16_byte_def crc16_shift_zero)
  then show ?case
    using Suc by (simp add: crc16_def)
qed

lemma crc16_byte_0_1: "crc16_byte 0 1 = 0xC0C1"
  by code_simp

lemma crc16_zeros_one: "crc16 0 (replicate n 0 @ [1]) = 0xC0C1"
  by (simp add: crc16_append crc16_zeros) (simp add: crc16_def crc16_byte_0_1)

subsection \<open>The backlight level\<close>

lemma KBD_BL_LEVEL_ADJ_value: "KBD_BL_LEVEL_ADJ = 874509"
  by (simp add: KBD_BL_LEVEL_ADJ_def MAX_KBD_BL_LEVEL_def MIN_KBD_BL_LEVEL_def
      KBD_BL_LEVEL_SCALE_def)

lemma unat_device_level:
  assumes "v \<le> 255"
  shows "unat (device_level v) = (if v = 0 then 0 else unat v * 874509 div 1000000 + 32)"
proof (cases "v = 0")
  case True
  then show ?thesis by (simp add: device_level_def)
next
  case False
  have b: "unat v \<le> 255"
    using assms by (simp add: word_le_nat_alt)
  have m: "unat (v * 874509) = unat v * 874509"
    using b by (simp add: unat_mult_lem [THEN iffD1])
  have d: "unat (v * 874509 div 1000000) = unat v * 874509 div 1000000"
    by (simp add: unat_div m)
  have "unat v * 874509 div 1000000 \<le> 255 * 874509 div 1000000"
    using b by (intro div_le_mono) simp
  then have s: "unat v * 874509 div 1000000 \<le> 222"
    by simp
  have "unat (v * 874509 div 1000000 + 32) = unat v * 874509 div 1000000 + 32"
    using s d by (simp add: unat_add_lem [THEN iffD1])
  then show ?thesis
    using False
    by (simp add: device_level_def KBD_BL_LEVEL_ADJ_value KBD_BL_LEVEL_SCALE_def
        MIN_KBD_BL_LEVEL_def)
qed

lemma dvd_255_223:
  assumes "(255::nat) dvd 223 * u"
  shows "255 dvd u"
proof -
  from assms obtain k where k: "223 * u = 255 * k" ..
  have "u + 255 * (8 * k) = 255 * (7 * u)"
    using k by linarith
  then have "255 dvd u + 255 * (8 * k)"
    by (simp only: dvd_triv_left)
  moreover have "(255::nat) dvd 255 * (8 * k)"
    by (rule dvd_triv_left)
  ultimately show ?thesis
    by (simp only: dvd_add_left_iff)
qed

lemma scaled_floor:
  assumes "0 < u" "u \<le> (254::nat)"
  shows "u * 874509 div 1000000 = u * 223 div 255"
proof -
  define q where "q = u * 223 div 255"
  define r where "r = u * 223 mod 255"
  have e: "u * 223 = 255 * q + r"
    by (simp add: q_def r_def)
  have r255: "r < 255"
    by (simp add: r_def)
  have "\<not> 255 dvd u"
    using assms by (auto dest: dvd_imp_le)
  then have "\<not> 255 dvd u * 223"
    using dvd_255_223 [of u] by (auto simp: mult.commute)
  then have r1: "1 \<le> r"
    unfolding r_def by (simp add: dvd_eq_mod_eq_0 Suc_leI)
  define X where "X = u * 874509"
  have "255 * X + 205 * u = 1000000 * (u * 223)"
    by (simp add: X_def)
  also have "\<dots> = 1000000 * (255 * q + r)"
    using e by simp
  also have "\<dots> = 255000000 * q + 1000000 * r"
    by (simp only: distrib_left mult.assoc [symmetric])
  finally have k: "255 * X + 205 * u = 255000000 * q + 1000000 * r" .
  have lo: "1000000 * q \<le> X"
    using k r1 assms(2) by linarith
  have hi: "X < 1000000 * q + 1000000"
    using k r255 by linarith
  have "X div 1000000 = q"
    by (rule div_nat_eqI) (use lo hi in \<open>simp_all add: mult.commute\<close>)
  then have "u * 874509 div 1000000 = q"
    by (simp add: X_def)
  then show ?thesis
    by (simp add: q_def)
qed

lemma device_level_mono:
  assumes "u \<le> v" "v \<le> 255"
  shows "device_level u \<le> device_level v"
proof -
  have u255: "u \<le> 255"
    using assms by simp
  have le: "unat u \<le> unat v"
    using assms(1) by (simp add: word_le_nat_alt)
  have "unat (device_level u) \<le> unat (device_level v)"
  proof (cases "u = 0")
    case True
    then show ?thesis
      by (simp add: device_level_def)
  next
    case False
    then have v0: "v \<noteq> 0"
      using assms(1) by auto
    have "unat u * 874509 div 1000000 \<le> unat v * 874509 div 1000000"
      using le by (intro div_le_mono) simp
    then show ?thesis
      using False v0 by (simp add: unat_device_level [OF u255] unat_device_level [OF assms(2)])
  qed
  then show ?thesis
    by (simp add: word_le_nat_alt)
qed

lemma device_level_range:
  assumes "v \<le> 255" "v \<noteq> 0"
  shows "MIN_KBD_BL_LEVEL \<le> device_level v \<and> device_level v \<le> MAX_KBD_BL_LEVEL"
proof -
  have "unat v \<le> 255"
    using assms(1) by (simp add: word_le_nat_alt)
  then have "unat v * 874509 div 1000000 \<le> 255 * 874509 div 1000000"
    by (intro div_le_mono) simp
  then have "unat v * 874509 div 1000000 \<le> 222"
    by simp
  then show ?thesis
    using assms(2)
    by (simp add: word_le_nat_alt unat_device_level [OF assms(1)] MIN_KBD_BL_LEVEL_def
        MAX_KBD_BL_LEVEL_def)
qed

lemma device_level_floor:
  assumes "v \<noteq> 0" "v \<le> 254"
  shows "int (unat (device_level v)) = \<lfloor>real (unat v) * (255 - 32) / 255\<rfloor> + 32"
proof -
  have v255: "v \<le> 255"
    using assms(2) by (rule order_trans) simp
  have pos: "0 < unat v"
    using assms(1) by (simp add: unat_gt_0)
  have le: "unat v \<le> 254"
    using assms(2) by (simp add: word_le_nat_alt)
  have "\<lfloor>real (unat v) * (255 - 32) / 255\<rfloor> = \<lfloor>real (unat v * 223) / real 255\<rfloor>"
    by simp
  also have "\<dots> = int (unat v * 223 div 255)"
    by (rule floor_divide_of_nat_eq)
  finally have "\<lfloor>real (unat v) * (255 - 32) / 255\<rfloor> = int (unat v * 874509 div 1000000)"
    by (simp only: scaled_floor [OF pos le])
  then show ?thesis
    using assms(1) by (simp add: unat_device_level [OF v255])
qed

subsection \<open>Packets built by the sender\<close>

lemma length_cpu_to_le16 [simp]: "length (cpu_to_le16 x) = 2"
  by (simp add: cpu_to_le16_def)

lemma le16_join: "push_bit 8 (ucast (ucast (drop_bit 8 x) :: u8)) OR ucast (ucast x :: u8) = (x :: u16)"
  by (rule bit_word_eqI) (auto simp: bit_simps)

lemma length_append_crc16 [simp]: "length (append_crc16 xs) = length xs + 2"
  by (simp add: append_crc16_def)

lemma append_crc16_verify [simp]: "crc16 0 (append_crc16 xs) = 0"
  unfolding append_crc16_def by (rule crc16_residue)

lemma nth_append_crc16: "i < length xs \<Longrightarrow> append_crc16 xs ! i = xs ! i"
  by (simp add: append_crc16_def nth_append)

lemma length_spi_packet:
  "length data \<le> 246 \<Longrightarrow> length (spi_packet flags device off rem len data) = 256"
  by (simp add: spi_packet_def)

lemma spi_packet_crc: "applespi_verify_crc (spi_packet flags device off rem len data)"
  by (simp add: spi_packet_def applespi_verify_crc_def)

lemma spi_packet_fields:
  "pkt_flags (spi_packet flags device off rem len data) = flags"
  "pkt_device (spi_packet flags device off rem len data) = device"
  "pkt_offset (spi_packet flags device off rem len data) = off"
  "pkt_remaining (spi_packet flags device off rem len data) = rem"
  "pkt_length (spi_packet flags device off rem len data) = len"
  by (simp_all add: spi_packet_def pkt_flags_def pkt_device_def pkt_offset_def
      pkt_remaining_def pkt_length_def le16_to_cpu_def nth_append_crc16 cpu_to_le16_def le16_join)

lemma spi_packet_data:
  "length data \<le> 246 \<Longrightarrow>
   pkt_data (spi_packet flags device off rem len data) = data @ replicate (246 - length data) 0"
  by (simp add: spi_packet_def pkt_data_def append_crc16_def cpu_to_le16_def)

lemma ucast_and_ff: "(ucast ((c :: u32) AND 0xff) :: u8) = ucast c"
proof -
  have m: "(0xff :: u32) = mask 8"
    by (simp add: mask_eq_exp_minus_1)
  show ?thesis
    unfolding m by (rule bit_word_eqI) (auto simp: bit_simps)
qed

lemma finalize_packet_fields:
  fixes sts device type payload a
  assumes "length payload \<le> 236"
  defines "r \<equiv> snd (finalize_packet sts device type payload a)"
  shows "fst (finalize_packet sts device type payload a) = sts"
    and "pkt_flags (tx_buffer r) = PACKET_TYPE_WRITE"
    and "pkt_device (tx_buffer r) = device"
    and "msg_type (pkt_data (tx_buffer r)) = type"
    and "msg_counter (pkt_data (tx_buffer r)) = ucast (cmd_msg_cntr a)"
    and "cmd_msg_cntr r = cmd_msg_cntr a + 1"
    and "trace r = trace a @ Spi_async_write (tx_buffer r) sts
                   # (if sts = 0 then [] else [Warn (Error_queueing_write sts)])"
    and "cmd_msg_queued r = (sts = 0 \<or> cmd_msg_queued a)"
    and "write_active r = (sts = 0 \<or> write_active a)"
  using assms(1) unfolding r_def
  by (simp_all add: finalize_packet_def Let_def emit_def spi_packet_fields spi_packet_data
      msg_type_def msg_counter_def le16_to_cpu_def nth_append nth_append_crc16 cpu_to_le16_def
      le16_join ucast_and_ff)

lemma finalize_packet_frame:
  fixes sts device type payload a
  defines "r \<equiv> snd (finalize_packet sts device type payload a)"
  shows "drain r = drain a" "read_active r = read_active a"
    "want_init_cmd r = want_init_cmd a" "want_cl_led_on r = want_cl_led_on a"
    "have_cl_led_on r = have_cl_led_on a" "want_bl_level r = want_bl_level a"
    "have_bl_level r = have_bl_level a" "rx_buffer r = rx_buffer a" "msg_buf r = msg_buf a"
    "saved_msg_len r = saved_msg_len a" "tx_status r = tx_status a"
    "cmd_log_mask r = cmd_log_mask a"
  unfolding r_def by (simp_all add: finalize_packet_def Let_def emit_def)

lemma writes_queued_append:
  "trace r = trace a @ es \<Longrightarrow>
   writes_queued r = writes_queued a @ [p. Spi_async_write p sts \<leftarrow> es, sts = 0]"
  by (simp add: writes_queued_def)

subsection \<open>The command builder, case by case\<close>

lemma send_blocked: "drain a \<or> cmd_msg_queued a \<Longrightarrow> applespi_send_cmd_msg sts a = (0, a)"
  by (auto simp: applespi_send_cmd_msg_def)

lemma send_init:
  assumes "\<not> drain a" "\<not> cmd_msg_queued a" "want_init_cmd a"
  shows "applespi_send_cmd_msg sts a =
     finalize_packet sts PACKET_DEV_TPAD 0x0252 (cpu_to_le16 0x0102)
       (a\<lparr>tx_buffer := replicate 256 0, want_init_cmd := False, cmd_log_mask := 1\<rparr>)"
  using assms by (simp add: applespi_send_cmd_msg_def Let_def)

lemma send_capsl:
  assumes "\<not> drain a" "\<not> cmd_msg_queued a" "\<not> want_init_cmd a"
    "want_cl_led_on a \<noteq> have_cl_led_on a"
  shows "applespi_send_cmd_msg sts a =
     finalize_packet sts PACKET_DEV_KEYB 0x0151 [0x01, if want_cl_led_on a then 2 else 0]
       (a\<lparr>tx_buffer := replicate 256 0, have_cl_led_on := want_cl_led_on a, cmd_log_mask := 4\<rparr>)"
  using assms by (simp add: applespi_send_cmd_msg_def Let_def)

lemma send_bl:
  assumes "\<not> drain a" "\<not> cmd_msg_queued a" "\<not> want_init_cmd a"
    "want_cl_led_on a = have_cl_led_on a" "want_bl_level a \<noteq> have_bl_level a"
  shows "applespi_send_cmd_msg sts a =
     finalize_packet sts PACKET_DEV_KEYB 0xB051
       (cpu_to_le16 0x01B0 @ cpu_to_le16 (ucast (want_bl_level a))
        @ (if want_bl_level a > 0 then cpu_to_le16 0x01F4 else cpu_to_le16 0x0001))
       (a\<lparr>tx_buffer := replicate 256 0, have_bl_level := want_bl_level a, cmd_log_mask := 2\<rparr>)"
  using assms by (simp add: applespi_send_cmd_msg_def Let_def)

lemma send_none:
  assumes "\<not> drain a" "\<not> cmd_msg_queued a" "\<not> want_init_cmd a"
    "want_cl_led_on a = have_cl_led_on a" "want_bl_level a = have_bl_level a"
  shows "applespi_send_cmd_msg sts a = (0, a\<lparr>tx_buffer := replicate 256 0\<rparr>)"
  using assms by (simp add: applespi_send_cmd_msg_def Let_def)

lemma send_frame:
  fixes sts a
  defines "r \<equiv> snd (applespi_send_cmd_msg sts a)"
  shows "drain r = drain a" "read_active r = read_active a"
    "want_cl_led_on r = want_cl_led_on a" "want_bl_level r = want_bl_level a"
    "rx_buffer r = rx_buffer a" "msg_buf r = msg_buf a"
    "saved_msg_len r = saved_msg_len a" "tx_status r = tx_status a"
  unfolding r_def by (simp_all add: applespi_send_cmd_msg_def Let_def finalize_packet_frame)

lemma send_config:
  fixes sts a
  assumes "\<not> drain a" "\<not> cmd_msg_queued a"
  defines "r \<equiv> snd (applespi_send_cmd_msg sts a)"
  shows "\<not> want_init_cmd r"
    and "have_cl_led_on r = (if want_init_cmd a then have_cl_led_on a else want_cl_led_on a)"
    and "have_bl_level r =
           (if want_init_cmd a \<or> want_cl_led_on a \<noteq> have_cl_led_on a then have_bl_level a
            else want_bl_level a)"
    and "trace r = trace a @
           (if pending a
            then Spi_async_write (tx_buffer r) sts
                 # (if sts = 0 then [] else [Warn (Error_queueing_write sts)])
            else [])"
    and "cmd_msg_queued r = (pending a \<and> sts = 0)"
    and "write_active r = (pending a \<and> sts = 0 \<or> write_active a)"
proof -
  consider (init) "want_init_cmd a"
    | (capsl) "\<not> want_init_cmd a" "want_cl_led_on a \<noteq> have_cl_led_on a"
    | (bl) "\<not> want_init_cmd a" "want_cl_led_on a = have_cl_led_on a"
        "want_bl_level a \<noteq> have_bl_level a"
    | (none) "\<not> want_init_cmd a" "want_cl_led_on a = have_cl_led_on a"
        "want_bl_level a = have_bl_level a"
    by blast
  then have "\<not> want_init_cmd r
    \<and> have_cl_led_on r = (if want_init_cmd a then have_cl_led_on a else want_cl_led_on a)
    \<and> have_bl_level r =
           (if want_init_cmd a \<or> want_cl_led_on a \<noteq> have_cl_led_on a then have_bl_level a
            else want_bl_level a)
    \<and> trace r = trace a @
           (if pending a
            then Spi_async_write (tx_buffer r) sts
                 # (if sts = 0 then [] else [Warn (Error_queueing_write sts)])
            else [])
    \<and> cmd_msg_queued r = (pending a \<and> sts = 0)
    \<and> write_active r = (pending a \<and> sts = 0 \<or> write_active a)"
  proof cases
    case init
    have e: "applespi_send_cmd_msg sts a =
       finalize_packet sts PACKET_DEV_TPAD 0x0252 (cpu_to_le16 0x0102)
         (a\<lparr>tx_buffer := replicate 256 0, want_init_cmd := False, cmd_log_mask := 1\<rparr>)"
      using assms(1,2) init by (rule send_init)
    show ?thesis
      unfolding r_def e using init assms(2)
      by (simp add: finalize_packet_fields finalize_packet_frame pending_def)
  next
    case capsl
    have e: "applespi_send_cmd_msg sts a =
       finalize_packet sts PACKET_DEV_KEYB 0x0151 [0x01, if want_cl_led_on a then 2 else 0]
         (a\<lparr>tx_buffer := replicate 256 0, have_cl_led_on := want_cl_led_on a,
            cmd_log_mask := 4\<rparr>)"
      using assms(1,2) capsl by (rule send_capsl)
    show ?thesis
      unfolding r_def e using capsl assms(2)
      by (simp add: finalize_packet_fields finalize_packet_frame pending_def)
  next
    case bl
    have e: "applespi_send_cmd_msg sts a =
       finalize_packet sts PACKET_DEV_KEYB 0xB051
         (cpu_to_le16 0x01B0 @ cpu_to_le16 (ucast (want_bl_level a))
          @ (if want_bl_level a > 0 then cpu_to_le16 0x01F4 else cpu_to_le16 0x0001))
         (a\<lparr>tx_buffer := replicate 256 0, have_bl_level := want_bl_level a,
            cmd_log_mask := 2\<rparr>)"
      using assms(1,2) bl by (rule send_bl)
    show ?thesis
      unfolding r_def e using bl assms(2)
      by (simp add: finalize_packet_fields finalize_packet_frame pending_def)
  next
    case none
    then show ?thesis
      unfolding r_def using assms(1,2) by (simp add: send_none pending_def)
  qed
  then show "\<not> want_init_cmd r"
    and "have_cl_led_on r = (if want_init_cmd a then have_cl_led_on a else want_cl_led_on a)"
    and "have_bl_level r =
           (if want_init_cmd a \<or> want_cl_led_on a \<noteq> have_cl_led_on a then have_bl_level a
            else want_bl_level a)"
    and "trace r = trace a @
           (if pending a
            then Spi_async_write (tx_buffer r) sts
                 # (if sts = 0 then [] else [Warn (Error_queueing_write sts)])
            else [])"
    and "cmd_msg_queued r = (pending a \<and> sts = 0)"
    and "write_active r = (pending a \<and> sts = 0 \<or> write_active a)"
    by blast+
qed

subsection \<open>What each function leaves unchanged\<close>

lemma msg_complete_write:
  "applespi_msg_complete sts True rc a =
     snd (applespi_send_cmd_msg sts
       (((if drain a then emit Wake_up_all else id)
          (a\<lparr>read_active := read_active a \<and> \<not> rc, write_active := False\<rparr>))
        \<lparr>cmd_msg_queued := False\<rparr>))"
  by (simp add: applespi_msg_complete_def Let_def)

lemma msg_complete_read:
  "applespi_msg_complete sts False rc a =
     (if drain a \<and> \<not> write_active a then emit Wake_up_all else id)
       (a\<lparr>read_active := read_active a \<and> \<not> rc\<rparr>)"
  by (simp add: applespi_msg_complete_def Let_def)

lemma emit_fields [simp]:
  "tx_buffer (emit e a) = tx_buffer a" "tx_status (emit e a) = tx_status a"
  "rx_buffer (emit e a) = rx_buffer a" "msg_buf (emit e a) = msg_buf a"
  "saved_msg_len (emit e a) = saved_msg_len a" "want_init_cmd (emit e a) = want_init_cmd a"
  "want_cl_led_on (emit e a) = want_cl_led_on a" "have_cl_led_on (emit e a) = have_cl_led_on a"
  "want_bl_level (emit e a) = want_bl_level a" "have_bl_level (emit e a) = have_bl_level a"
  "cmd_msg_cntr (emit e a) = cmd_msg_cntr a" "cmd_msg_queued (emit e a) = cmd_msg_queued a"
  "cmd_log_mask (emit e a) = cmd_log_mask a" "drain (emit e a) = drain a"
  "read_active (emit e a) = read_active a" "write_active (emit e a) = write_active a"
  "trace (emit e a) = trace a @ [e]"
  by (simp_all add: emit_def)

lemma writes_queued_emit:
  "writes_queued (emit e a) =
     writes_queued a @ (case e of Spi_async_write p sts \<Rightarrow> if sts = 0 then [p] else [] | _ \<Rightarrow> [])"
  by (cases e) (simp_all add: writes_queued_def emit_def)

lemma writes_queued_upd [simp]:
  "writes_queued (a\<lparr>tx_buffer := x1\<rparr>) = writes_queued a"
  "writes_queued (a\<lparr>tx_status := x2\<rparr>) = writes_queued a"
  "writes_queued (a\<lparr>rx_buffer := x3\<rparr>) = writes_queued a"
  "writes_queued (a\<lparr>msg_buf := x4\<rparr>) = writes_queued a"
  "writes_queued (a\<lparr>saved_msg_len := x5\<rparr>) = writes_queued a"
  "writes_queued (a\<lparr>want_init_cmd := x6\<rparr>) = writes_queued a"
  "writes_queued (a\<lparr>want_cl_led_on := x7\<rparr>) = writes_queued a"
  "writes_queued (a\<lparr>have_cl_led_on := x8\<rparr>) = writes_queued a"
  "writes_queued (a\<lparr>want_bl_level := x9\<rparr>) = writes_queued a"
  "writes_queued (a\<lparr>have_bl_level := x10\<rparr>) = writes_queued a"
  "writes_queued (a\<lparr>cmd_msg_cntr := x11\<rparr>) = writes_queued a"
  "writes_queued (a\<lparr>cmd_msg_queued := x12\<rparr>) = writes_queued a"
  "writes_queued (a\<lparr>cmd_log_mask := x13\<rparr>) = writes_queued a"
  "writes_queued (a\<lparr>drain := x14\<rparr>) = writes_queued a"
  "writes_queued (a\<lparr>read_active := x15\<rparr>) = writes_queued a"
  "writes_queued (a\<lparr>write_active := x16\<rparr>) = writes_queued a"
  by (simp_all add: writes_queued_def)

lemma reassemble_frame:
  fixes a
  defines "r \<equiv> snd (applespi_reassemble a)"
  shows "rx_buffer r = rx_buffer a" "cmd_msg_queued r = cmd_msg_queued a"
    "trace r = trace a" "drain r = drain a" "read_active r = read_active a"
    "write_active r = write_active a" "tx_buffer r = tx_buffer a"
  unfolding r_def
  by (simp_all add: applespi_reassemble_def verify_message_def Let_def)

lemma handle_message_frame:
  fixes a loc n
  defines "r \<equiv> applespi_handle_message loc n a"
  shows "pkt_flags (rx_buffer r) = pkt_flags (rx_buffer a)"
    "cmd_msg_queued r = cmd_msg_queued a"
    "writes_queued r = writes_queued a" "drain r = drain a" "read_active r = read_active a"
    "write_active r = write_active a"
  unfolding r_def
  by (cases loc; simp add: applespi_handle_message_def store_byte_def Let_def emit_def
      writes_queued_def pkt_flags_def)+

lemma got_data_keeps_queued:
  assumes "pkt_flags (rx_buffer a) \<noteq> PACKET_TYPE_WRITE"
  shows "cmd_msg_queued (applespi_got_data sts a) = cmd_msg_queued a
     \<and> writes_queued (applespi_got_data sts a) = writes_queued a"
proof (cases "applespi_verify_crc (take 256 (rx_buffer a))")
  case False
  then show ?thesis
    by (simp add: applespi_got_data_def Let_def writes_queued_emit)
next
  case True
  obtain o1 a1 where r: "applespi_reassemble a = (o1, a1)"
    by (cases "applespi_reassemble a")
  then have a1: "a1 = snd (applespi_reassemble a)"
    by simp
  have f: "pkt_flags (rx_buffer a1) \<noteq> PACKET_TYPE_WRITE"
    using assms by (simp add: a1 reassemble_frame)
  have q: "cmd_msg_queued a1 = cmd_msg_queued a" "writes_queued a1 = writes_queued a"
    by (simp_all add: a1 reassemble_frame writes_queued_def)
  show ?thesis
  proof (cases o1)
    case Incomplete
    then show ?thesis
      using True r q by (simp add: applespi_got_data_def)
  next
    case (Rejected w)
    then show ?thesis
      using True r q f
      by (simp add: applespi_got_data_def msg_complete_read writes_queued_emit)
  next
    case (Complete loc n)
    then show ?thesis
      using True r q f
      by (simp add: applespi_got_data_def Let_def msg_complete_read handle_message_frame
          writes_queued_emit)
  qed
qed

lemma send_writes:
  fixes sts a
  defines "r \<equiv> snd (applespi_send_cmd_msg sts a)"
  shows "cmd_msg_queued r = (cmd_msg_queued a \<or> writes_queued r \<noteq> writes_queued a)"
    and "writes_queued r = writes_queued a \<or> (\<exists>p. writes_queued r = writes_queued a @ [p])"
    and "sts \<noteq> 0 \<longrightarrow> writes_queued r = writes_queued a \<and> cmd_msg_queued r = cmd_msg_queued a"
proof -
  consider (blocked) "drain a \<or> cmd_msg_queued a"
    | (init) "\<not> drain a" "\<not> cmd_msg_queued a" "want_init_cmd a"
    | (capsl) "\<not> drain a" "\<not> cmd_msg_queued a" "\<not> want_init_cmd a"
        "want_cl_led_on a \<noteq> have_cl_led_on a"
    | (bl) "\<not> drain a" "\<not> cmd_msg_queued a" "\<not> want_init_cmd a"
        "want_cl_led_on a = have_cl_led_on a" "want_bl_level a \<noteq> have_bl_level a"
    | (none) "\<not> drain a" "\<not> cmd_msg_queued a" "\<not> want_init_cmd a"
        "want_cl_led_on a = have_cl_led_on a" "want_bl_level a = have_bl_level a"
    by blast
  then have "cmd_msg_queued r = (cmd_msg_queued a \<or> writes_queued r \<noteq> writes_queued a)
     \<and> (writes_queued r = writes_queued a \<or> (\<exists>p. writes_queued r = writes_queued a @ [p]))
     \<and> (sts \<noteq> 0 \<longrightarrow> writes_queued r = writes_queued a \<and> cmd_msg_queued r = cmd_msg_queued a)"
  proof cases
    case blocked
    then show ?thesis
      unfolding r_def by (auto simp: send_blocked)
  next
    case init
    then show ?thesis
      unfolding r_def
      by (simp add: send_init finalize_packet_fields writes_queued_append [OF finalize_packet_fields(7)])
  next
    case capsl
    then show ?thesis
      unfolding r_def
      by (simp add: send_capsl finalize_packet_fields writes_queued_append [OF finalize_packet_fields(7)])
  next
    case bl
    then show ?thesis
      unfolding r_def
      by (simp add: send_bl finalize_packet_fields writes_queued_append [OF finalize_packet_fields(7)])
  next
    case none
    then show ?thesis
      unfolding r_def by (simp add: send_none)
  qed
  then show "cmd_msg_queued r = (cmd_msg_queued a \<or> writes_queued r \<noteq> writes_queued a)"
    and "writes_queued r = writes_queued a \<or> (\<exists>p. writes_queued r = writes_queued a @ [p])"
    and "sts \<noteq> 0 \<longrightarrow> writes_queued r = writes_queued a \<and> cmd_msg_queued r = cmd_msg_queued a"
    by blast+
qed

lemma step_keeps_queued:
  assumes "cmd_msg_queued a" "\<not> ends_write_exchange e"
  shows "cmd_msg_queued (step e a) \<and> writes_queued (step e a) = writes_queued a"
proof (cases e)
  case (Init sts)
  then show ?thesis
    using assms(1) by (simp add: applespi_init_def send_blocked)
next
  case (Set_capsl_led on sts)
  then show ?thesis
    using assms(1) by (simp add: applespi_set_capsl_led_def send_blocked)
next
  case (Set_bl_level v sts)
  then show ?thesis
    using assms(1) by (simp add: applespi_set_bl_level_def send_blocked)
next
  case (Notify sts)
  then show ?thesis
    using assms(1) by (simp add: applespi_notify_def Let_def writes_queued_emit)
next
  case (Async_write_complete status st sts)
  then show ?thesis
    using assms by (simp add: applespi_async_write_complete_def ends_write_exchange_def)
next
  case (Async_read_complete status rx sts)
  show ?thesis
  proof (cases "status < 0")
    case True
    then show ?thesis
      using assms(1) Async_read_complete
      by (simp add: applespi_async_read_complete_def writes_queued_emit)
  next
    case False
    then have "pkt_flags (rx_buffer (a\<lparr>rx_buffer := rx\<rparr>)) \<noteq> PACKET_TYPE_WRITE"
      using assms(2) Async_read_complete by (simp add: ends_write_exchange_def)
    from got_data_keeps_queued [OF this, of sts] show ?thesis
      using assms(1) False Async_read_complete
      by (simp add: applespi_async_read_complete_def writes_queued_emit)
  qed
next
  case Drain_begin
  then show ?thesis
    using assms(1) by (simp add: applespi_drain_begin_def)
next
  case (Resume sts)
  then show ?thesis
    using assms(2) by (simp add: ends_write_exchange_def)
qed

lemma reads_queued_emit:
  "reads_queued (emit e a) =
     reads_queued a + (case e of Spi_async_read sts \<Rightarrow> if sts = 0 then 1 else 0 | _ \<Rightarrow> 0)"
  by (cases e) (simp_all add: reads_queued_def emit_def)

lemma reads_queued_upd [simp]:
  "reads_queued (a\<lparr>read_active := x\<rparr>) = reads_queued a"
  "reads_queued (a\<lparr>drain := y\<rparr>) = reads_queued a"
  by (simp_all add: reads_queued_def)

lemma resume_flags_fields [simp]:
  "drain (applespi_resume_flags a) = False"
  "cmd_msg_queued (applespi_resume_flags a) = False"
  "read_active (applespi_resume_flags a) = False"
  "write_active (applespi_resume_flags a) = False"
  "have_cl_led_on (applespi_resume_flags a) = False"
  "have_bl_level (applespi_resume_flags a) = 0"
  "want_cl_led_on (applespi_resume_flags a) = want_cl_led_on a"
  "want_bl_level (applespi_resume_flags a) = want_bl_level a"
  "trace (applespi_resume_flags a) = trace a"
  by (simp_all add: applespi_resume_flags_def)

lemma resume_sends_init:
  fixes sts a
  defines "r \<equiv> applespi_resume sts a"
  shows "trace r = trace a @ Spi_async_write (tx_buffer r) sts
                   # (if sts = 0 then [] else [Warn (Error_queueing_write sts)])"
    and "pkt_device (tx_buffer r) = PACKET_DEV_TPAD"
    and "msg_type (pkt_data (tx_buffer r)) = 0x0252"
    and "\<not> drain r" "\<not> read_active r"
    and "cmd_msg_queued r = (sts = 0)" "write_active r = (sts = 0)"
    and "\<not> have_cl_led_on r" "have_bl_level r = 0" "\<not> want_init_cmd r"
    and "want_cl_led_on r = want_cl_led_on a" "want_bl_level r = want_bl_level a"
  unfolding r_def
  by (simp_all add: applespi_resume_def applespi_init_def send_init finalize_packet_fields
      finalize_packet_frame)

lemma send_packet_kind:
  fixes sts a
  assumes "\<not> drain a" "\<not> cmd_msg_queued a"
  defines "r \<equiv> snd (applespi_send_cmd_msg sts a)"
  shows "want_init_cmd a \<Longrightarrow>
           pkt_device (tx_buffer r) = PACKET_DEV_TPAD \<and> msg_type (pkt_data (tx_buffer r)) = 0x0252"
    and "\<not> want_init_cmd a \<Longrightarrow> want_cl_led_on a \<noteq> have_cl_led_on a \<Longrightarrow>
           pkt_device (tx_buffer r) = PACKET_DEV_KEYB \<and> msg_type (pkt_data (tx_buffer r)) = 0x0151"
    and "\<not> want_init_cmd a \<Longrightarrow> want_cl_led_on a = have_cl_led_on a \<Longrightarrow>
         want_bl_level a \<noteq> have_bl_level a \<Longrightarrow>
           pkt_device (tx_buffer r) = PACKET_DEV_KEYB \<and> msg_type (pkt_data (tx_buffer r)) = 0xB051"
  unfolding r_def using assms(1,2)
  by (simp_all add: send_init send_capsl send_bl finalize_packet_fields)

lemma send_counter:
  fixes sts a
  assumes "\<not> drain a" "\<not> cmd_msg_queued a"
  defines "r \<equiv> snd (applespi_send_cmd_msg sts a)"
  shows "pending a \<Longrightarrow> msg_counter (pkt_data (tx_buffer r)) = ucast (cmd_msg_cntr a)"
    and "cmd_msg_cntr r = (if pending a then cmd_msg_cntr a + 1 else cmd_msg_cntr a)"
proof -
  consider (init) "want_init_cmd a"
    | (capsl) "\<not> want_init_cmd a" "want_cl_led_on a \<noteq> have_cl_led_on a"
    | (bl) "\<not> want_init_cmd a" "want_cl_led_on a = have_cl_led_on a"
        "want_bl_level a \<noteq> have_bl_level a"
    | (none) "\<not> want_init_cmd a" "want_cl_led_on a = have_cl_led_on a"
        "want_bl_level a = have_bl_level a"
    by blast
  then have "(pending a \<longrightarrow> msg_counter (pkt_data (tx_buffer r)) = ucast (cmd_msg_cntr a))
     \<and> cmd_msg_cntr r = (if pending a then cmd_msg_cntr a + 1 else cmd_msg_cntr a)"
  proof cases
    case init
    then show ?thesis
      unfolding r_def using assms(1,2)
      by (simp add: send_init finalize_packet_fields pending_def)
  next
    case capsl
    then show ?thesis
      unfolding r_def using assms(1,2)
      by (simp add: send_capsl finalize_packet_fields pending_def)
  next
    case bl
    then show ?thesis
      unfolding r_def using assms(1,2)
      by (simp add: send_bl finalize_packet_fields pending_def)
  next
    case none
    then show ?thesis
      unfolding r_def using assms(1,2)
      by (simp add: send_none pending_def)
  qed
  then show "pending a \<Longrightarrow> msg_counter (pkt_data (tx_buffer r)) = ucast (cmd_msg_cntr a)"
    and "cmd_msg_cntr r = (if pending a then cmd_msg_cntr a + 1 else cmd_msg_cntr a)"
    by blast+
qed

lemma msg_complete_write_send:
  "\<not> drain a \<Longrightarrow>
   applespi_msg_complete sts True rc a =
     snd (applespi_send_cmd_msg sts
       (a\<lparr>read_active := read_active a \<and> \<not> rc, write_active := False,
          cmd_msg_queued := False\<rparr>))"
  by (simp add: msg_complete_write)

lemma msg_complete_next:
  fixes sts c rc
  assumes "\<not> drain c" "\<not> want_init_cmd c"
  defines "c' \<equiv> applespi_msg_complete sts True rc c"
  shows "want_cl_led_on c \<noteq> have_cl_led_on c \<Longrightarrow>
           pkt_device (tx_buffer c') = PACKET_DEV_KEYB
           \<and> msg_type (pkt_data (tx_buffer c')) = 0x0151
           \<and> have_cl_led_on c' = want_cl_led_on c \<and> have_bl_level c' = have_bl_level c
           \<and> writes_queued c' = writes_queued c @ (if sts = 0 then [tx_buffer c'] else [])"
    and "want_cl_led_on c = have_cl_led_on c \<Longrightarrow> want_bl_level c \<noteq> have_bl_level c \<Longrightarrow>
           pkt_device (tx_buffer c') = PACKET_DEV_KEYB
           \<and> msg_type (pkt_data (tx_buffer c')) = 0xB051
           \<and> have_cl_led_on c' = have_cl_led_on c \<and> have_bl_level c' = want_bl_level c
           \<and> writes_queued c' = writes_queued c @ (if sts = 0 then [tx_buffer c'] else [])"
    and "\<not> drain c'" "\<not> want_init_cmd c'"
    and "want_cl_led_on c' = want_cl_led_on c" "want_bl_level c' = want_bl_level c"
proof -
  define b where "b = c\<lparr>read_active := read_active c \<and> \<not> rc, write_active := False,
          cmd_msg_queued := False\<rparr>"
  have c': "c' = snd (applespi_send_cmd_msg sts b)"
    unfolding c'_def b_def using assms(1) by (rule msg_complete_write_send)
  have b: "\<not> drain b" "\<not> cmd_msg_queued b"
    unfolding b_def using assms(1) by simp_all
  have f: "\<not> want_init_cmd b" "want_cl_led_on b = want_cl_led_on c"
    "have_cl_led_on b = have_cl_led_on c" "want_bl_level b = want_bl_level c"
    "have_bl_level b = have_bl_level c" "writes_queued b = writes_queued c"
    unfolding b_def using assms(2) by simp_all
  have w: "pending b \<Longrightarrow>
      writes_queued c' = writes_queued c @ (if sts = 0 then [tx_buffer c'] else [])"
    unfolding c' using writes_queued_append [OF send_config(4) [OF b, of sts]] f(6)
    by simp
  show "want_cl_led_on c \<noteq> have_cl_led_on c \<Longrightarrow>
           pkt_device (tx_buffer c') = PACKET_DEV_KEYB
           \<and> msg_type (pkt_data (tx_buffer c')) = 0x0151
           \<and> have_cl_led_on c' = want_cl_led_on c \<and> have_bl_level c' = have_bl_level c
           \<and> writes_queued c' = writes_queued c @ (if sts = 0 then [tx_buffer c'] else [])"
    using w f send_packet_kind(2) [OF b, of sts] send_config(2,3) [OF b, of sts]
    unfolding c' [symmetric] pending_def by simp
  show "want_cl_led_on c = have_cl_led_on c \<Longrightarrow> want_bl_level c \<noteq> have_bl_level c \<Longrightarrow>
           pkt_device (tx_buffer c') = PACKET_DEV_KEYB
           \<and> msg_type (pkt_data (tx_buffer c')) = 0xB051
           \<and> have_cl_led_on c' = have_cl_led_on c \<and> have_bl_level c' = want_bl_level c
           \<and> writes_queued c' = writes_queued c @ (if sts = 0 then [tx_buffer c'] else [])"
    using w f send_packet_kind(3) [OF b, of sts] send_config(2,3) [OF b, of sts]
    unfolding c' [symmetric] pending_def by simp
  show "\<not> drain c'" "\<not> want_init_cmd c'"
    and "want_cl_led_on c' = want_cl_led_on c" "want_bl_level c' = want_bl_level c"
    unfolding c' using b f send_config(1) [OF b, of sts] by (simp_all add: send_frame)
qed

subsection \<open>The example packets and states\<close>

lemma msg_length_append: "8 \<le> length xs \<Longrightarrow> msg_length (xs @ ys) = msg_length xs"
  by (simp add: msg_length_def le16_to_cpu_def nth_append)

lemma take_drop_append: "take n xs @ drop n xs @ ys = xs @ ys"
  by (metis append_assoc append_take_drop_id)

lemma two_packet_msg_facts:
  "length two_packet_msg = 300" "msg_length two_packet_msg = 290"
  "applespi_verify_crc two_packet_msg"
  by (simp_all add: two_packet_msg_def msg_length_def le16_to_cpu_def nth_append_crc16
      applespi_verify_crc_def nth_append cpu_to_le16_def)

lemma warnings_emit:
  "warnings (emit e a) = warnings a @ (case e of Warn w \<Rightarrow> [w] | _ \<Rightarrow> [])"
  by (cases e) (simp_all add: warnings_def emit_def)

lemma warnings_upd [simp]:
  "warnings (a\<lparr>rx_buffer := x1\<rparr>) = warnings a"
  "warnings (a\<lparr>msg_buf := x2\<rparr>) = warnings a"
  "warnings (a\<lparr>saved_msg_len := x3\<rparr>) = warnings a"
  "warnings (a\<lparr>read_active := x4\<rparr>) = warnings a"
  "warnings (a\<lparr>write_active := x5\<rparr>) = warnings a"
  "warnings (a\<lparr>cmd_msg_queued := x6\<rparr>) = warnings a"
  by (simp_all add: warnings_def)

lemma take_spi_packet [simp]:
  "length data \<le> 246 \<Longrightarrow> take 256 (spi_packet flags device off rem len data)
     = spi_packet flags device off rem len data"
  by (simp add: length_spi_packet)

lemma frag_facts:
  "pkt_offset frag1 = 0" "pkt_remaining frag1 = 54" "pkt_length frag1 = 246"
  "pkt_data frag1 = take 246 two_packet_msg" "pkt_flags frag1 = PACKET_TYPE_READ"
  "applespi_verify_crc (take 256 frag1)"
  by (simp_all add: frag1_def spi_packet_fields spi_packet_data two_packet_msg_facts
      spi_packet_crc)

lemma stray_facts:
  "pkt_offset stray_frame = 100" "pkt_remaining stray_frame = 0" "pkt_length stray_frame = 10"
  "pkt_flags stray_frame = PACKET_TYPE_READ" "applespi_verify_crc (take 256 stray_frame)"
  by (simp_all add: stray_frame_def spi_packet_fields spi_packet_crc)

lemma half_received_facts:
  "saved_msg_len half_received = 246" "warnings half_received = []"
  "drain half_received = False" "write_active half_received = False"
  by (simp_all add: half_received_def applespi_async_read_complete_def applespi_got_data_def
      frag_facts applespi_reassemble_def Let_def warnings_emit)
     (simp_all add: applespi_alloc_def warnings_def)

lemma bad_crc_frame_crc: "\<not> applespi_verify_crc (take 256 bad_crc_frame)"
  by (simp add: bad_crc_frame_def applespi_verify_crc_def crc16_zeros_one)

lemma after_stray_facts:
  "saved_msg_len after_stray = 246" "warnings after_stray = [Unexpected_offset 100 246]"
  "drain after_stray = False" "write_active after_stray = False"
  by (simp_all add: after_stray_def applespi_async_read_complete_def applespi_got_data_def
      stray_facts applespi_reassemble_def Let_def half_received_facts msg_complete_read
      warnings_emit)

lemma after_bad_crc_facts:
  "saved_msg_len after_bad_crc = 246" "warnings after_bad_crc = [Crc_mismatch]"
  by (simp_all add: after_bad_crc_def applespi_async_read_complete_def applespi_got_data_def
      bad_crc_frame_crc Let_def half_received_facts warnings_emit)

lemma msg_complete_read_active:
  "\<not> read_active (applespi_msg_complete sts is_write_msg True a)"
  by (cases is_write_msg) (simp_all add: msg_complete_read msg_complete_write send_frame)

lemma got_data_read_active:
  assumes "applespi_verify_crc (take 256 (rx_buffer a))" "fst (applespi_reassemble a) \<noteq> Incomplete"
  shows "\<not> read_active (applespi_got_data sts a)"
  using assms
  by (cases "applespi_reassemble a"; cases "fst (applespi_reassemble a)")
     (simp_all add: applespi_got_data_def Let_def msg_complete_read_active)

lemma reading_facts:
  "read_active reading" "\<not> drain reading" "rx_buffer reading = bad_crc_frame"
  "\<not> write_active reading"
  by (simp_all add: reading_def applespi_notify_def Let_def applespi_alloc_def)

lemma read_error_keeps_flags:
  "status < 0 \<Longrightarrow>
   read_active (applespi_async_read_complete sts status a) = read_active a
   \<and> trace (applespi_async_read_complete sts status a)
       = trace a @ [Warn (Error_reading status), Finish_gpe]"
  by (simp add: applespi_async_read_complete_def)

lemma sent_kinds_upd [simp]:
  "sent_kinds (a\<lparr>want_init_cmd := x1\<rparr>) = sent_kinds a"
  "sent_kinds (a\<lparr>want_cl_led_on := x2\<rparr>) = sent_kinds a"
  "sent_kinds (a\<lparr>read_active := x3\<rparr>) = sent_kinds a"
  "sent_kinds (a\<lparr>write_active := x4\<rparr>) = sent_kinds a"
  "sent_kinds (a\<lparr>cmd_msg_queued := x5\<rparr>) = sent_kinds a"
  by (simp_all add: sent_kinds_def)

lemma send_sent_kinds:
  assumes "\<not> drain a" "\<not> cmd_msg_queued a" "pending a"
  shows "sent_kinds (snd (applespi_send_cmd_msg 0 a)) =
     sent_kinds a @
       [(if want_init_cmd a then 0x0252
         else if want_cl_led_on a \<noteq> have_cl_led_on a then 0x0151 else 0xB051,
         ucast (cmd_msg_cntr a))]"
proof -
  let ?r = "snd (applespi_send_cmd_msg 0 a)"
  have w: "writes_queued ?r = writes_queued a @ [tx_buffer ?r]"
    using writes_queued_append [OF send_config(4) [OF assms(1,2), of 0]] assms(3) by simp
  have c: "msg_counter (pkt_data (tx_buffer ?r)) = ucast (cmd_msg_cntr a)"
    using assms by (rule send_counter(1))
  have k: "msg_type (pkt_data (tx_buffer ?r)) =
      (if want_init_cmd a then 0x0252
       else if want_cl_led_on a \<noteq> have_cl_led_on a then 0x0151 else 0xB051)"
    using send_packet_kind [OF assms(1,2), of 0] assms(3) by (auto simp: pending_def)
  show ?thesis
    by (simp add: sent_kinds_def w c k)
qed

lemma verify_message_cases:
  "verify_message loc n a = (Complete loc n, a)
   \<or> verify_message loc n a = (Rejected Invalid_message_length, a)
   \<or> verify_message loc n a = (Rejected Crc_mismatch, a)"
  by (simp add: verify_message_def Let_def)

text \<open>
  Which rejections reset the partial message: those of the complete message (declared
  length, message crc) do, those of the packet (its length, its offset, the size it
  announces) leave the state exactly as it was.
\<close>

lemma reassemble_rejected:
  assumes "applespi_reassemble a = (Rejected w, a')"
  shows "(w = Invalid_message_length \<or> w = Crc_mismatch \<longrightarrow> saved_msg_len a' = 0)
     \<and> (w \<noteq> Invalid_message_length \<and> w \<noteq> Crc_mismatch \<longrightarrow> a' = a)"
  using assms
    verify_message_cases
      [of In_packet "ucast (pkt_length (rx_buffer a))" "a\<lparr>saved_msg_len := 0\<rparr>"]
    verify_message_cases
      [of In_msg_buf "saved_msg_len a + ucast (pkt_length (rx_buffer a))"
        "a\<lparr>msg_buf := memcpy (msg_buf a) (unat (ucast (pkt_offset (rx_buffer a)) :: u32))
                        (pkt_data (rx_buffer a))
                        (unat (ucast (pkt_length (rx_buffer a)) :: u32)),
           saved_msg_len := 0\<rparr>"]
  by (auto simp: applespi_reassemble_def Let_def split: if_splits)

lemma reading_stray_facts:
  "applespi_verify_crc (take 256 (rx_buffer reading_stray))"
  "fst (applespi_reassemble reading_stray) \<noteq> Incomplete" "read_active reading_stray"
  by (simp_all add: reading_stray_def stray_facts applespi_reassemble_def Let_def
      applespi_notify_def applespi_alloc_def)

lemma reading_frag1_facts:
  "applespi_verify_crc (take 256 (rx_buffer reading_frag1))"
  "fst (applespi_reassemble reading_frag1) = Incomplete" "read_active reading_frag1"
  by (simp_all add: reading_frag1_def frag_facts applespi_reassemble_def Let_def
      applespi_notify_def applespi_alloc_def)

subsection \<open>C1: write exchanges are not overlapped\<close>

lemma init_alloc_queued: "cmd_msg_queued (step (Init 0) applespi_alloc)"
  by (simp add: applespi_init_def send_init finalize_packet_fields applespi_alloc_def)

lemma stalled_queued:
  "cmd_msg_queued stalled \<and> length (writes_queued stalled) = 1 \<and> \<not> write_active stalled"
  by (simp add: stalled_def run_def applespi_init_def send_init finalize_packet_fields
      finalize_packet_frame applespi_alloc_def applespi_drain_begin_def applespi_notify_def
      applespi_async_read_complete_def applespi_got_data_def applespi_verify_crc_def
      bad_crc_frame_def crc16_zeros_one Let_def writes_queued_emit
      writes_queued_append [OF finalize_packet_fields(7)] writes_queued_def)

text \<open>
  C1 (as the code has it). While \<^verbatim>\<open>drain\<close> or \<^verbatim>\<open>cmd_msg_queued\<close> is set,
  \<^verbatim>\<open>applespi_send_cmd_msg\<close> returns 0 and leaves the whole state, trace included, as it
  was. \<^verbatim>\<open>cmd_msg_queued\<close> is set by \<^verbatim>\<open>applespi_send_cmd_msg\<close> exactly when \<^verbatim>\<open>spi_async\<close>
  accepted a write. Once it is set, every input other than a failed write completion, a
  read completion whose packet carries the write flag, or resume keeps it set and queues
  no further write.
\<close>

theorem write_exchanges_not_overlapped:
  "(drain a \<or> cmd_msg_queued a \<longrightarrow> applespi_send_cmd_msg sts a = (0, a))
   \<and> cmd_msg_queued (snd (applespi_send_cmd_msg sts a)) =
       (cmd_msg_queued a
        \<or> writes_queued (snd (applespi_send_cmd_msg sts a)) \<noteq> writes_queued a)
   \<and> (cmd_msg_queued a \<and> \<not> ends_write_exchange e \<longrightarrow>
        cmd_msg_queued (step e a) \<and> writes_queued (step e a) = writes_queued a)"
  using send_blocked [of a sts] send_writes(1) [of sts a] step_keeps_queued [of a e]
  by blast

text \<open>
  The witness: after \<^verbatim>\<open>applespi_init\<close> on the freshly allocated state a write is queued;
  a caps-lock request that arrives then changes neither the flag nor the writes.
\<close>

theorem write_exchanges_not_overlapped_witness:
  "cmd_msg_queued (step (Init 0) applespi_alloc)
   \<and> \<not> ends_write_exchange (Set_capsl_led True 0)
   \<and> applespi_send_cmd_msg 0 (step (Init 0) applespi_alloc) = (0, step (Init 0) applespi_alloc)
   \<and> cmd_msg_queued (step (Set_capsl_led True 0) (step (Init 0) applespi_alloc))
   \<and> writes_queued (step (Set_capsl_led True 0) (step (Init 0) applespi_alloc))
       = writes_queued (step (Init 0) applespi_alloc)"
proof -
  have e: "\<not> ends_write_exchange (Set_capsl_led True 0)"
    by (simp add: ends_write_exchange_def)
  from write_exchanges_not_overlapped
    [of "step (Init 0) applespi_alloc" 0 "Set_capsl_led True 0"]
  show ?thesis
    using init_alloc_queued e by blast
qed

text \<open>
  C1 (as the spec states it) names the completion of the write exchange as the only way
  the flag is cleared before the next write. Resume is another: in the state \<open>stalled\<close>
  (init queued, then suspend began, then a packet read with a bad crc) the flag is set
  and one write is queued; resume queues a second write though no completion ran.
\<close>

theorem resume_counterexample:
  "cmd_msg_queued stalled \<and> length (writes_queued stalled) = 1
   \<and> length (writes_queued (step (Resume 0) stalled)) = 2"
  using stalled_queued
  by (simp add: writes_queued_append [OF resume_sends_init(1)])

subsection \<open>C2: what a rejected packet leaves behind\<close>

text \<open>
  C2, evaluated where it fails. After the first packet of a two-packet message
  \<^verbatim>\<open>saved_msg_len\<close> is 246. A packet rejected for its offset (100) leaves it at 246, and
  so does a packet rejected for its crc: the jumps to \<^verbatim>\<open>cleanup\<close> and the early return
  pass by the assignment \<^verbatim>\<open>saved_msg_len = 0\<close>, which only the paths through the length
  and crc checks of the complete message reach (lemma \<open>reassemble_rejected\<close>). The next
  exchange, starting properly at offset 0, is then itself rejected (got 0, expected 246).
\<close>

theorem rejected_packet_keeps_partial_state:
  "saved_msg_len half_received = 246
   \<and> saved_msg_len after_stray = 246
   \<and> warnings after_stray = [Unexpected_offset 100 246]
   \<and> warnings (step (Async_read_complete 0 frag1 0) after_stray)
       = [Unexpected_offset 100 246, Unexpected_offset 0 246]
   \<and> saved_msg_len after_bad_crc = 246
   \<and> warnings (step (Async_read_complete 0 frag1 0) after_bad_crc)
       = [Crc_mismatch, Unexpected_offset 0 246]"
  by (simp add: half_received_facts after_stray_facts after_bad_crc_facts
      applespi_async_read_complete_def applespi_got_data_def frag_facts
      applespi_reassemble_def Let_def msg_complete_read warnings_emit)

subsection \<open>C3: the message counter\<close>

text \<open>
  C3, evaluated where it fails. Init, caps-lock and init again are sent, each after the
  previous exchange completed. The messages carry the counters 0, 1 and 2: the second
  init message has 2, not the 1 that a counter of its own kind would give, because
  \<^verbatim>\<open>cmd_msg_cntr\<close> is one counter for all kinds.
\<close>

theorem one_counter_for_all_kinds:
  "sent_kinds counters_demo = [(0x0252, 0), (0x0151, 1), (0x0252, 2)]"
proof -
  define a0 where "a0 = applespi_alloc\<lparr>want_init_cmd := True\<rparr>"
  define s1 where "s1 = snd (applespi_send_cmd_msg 0 a0)"
  define a1 where "a1 = s1\<lparr>want_cl_led_on := True\<rparr>"
  define b1 where "b1 = a1\<lparr>read_active := read_active a1 \<and> \<not> True, write_active := False,
     cmd_msg_queued := False\<rparr>"
  define s3 where "s3 = snd (applespi_send_cmd_msg 0 b1)"
  define a3 where "a3 = s3\<lparr>want_init_cmd := True\<rparr>"
  define b3 where "b3 = a3\<lparr>read_active := read_active a3 \<and> \<not> True, write_active := False,
     cmd_msg_queued := False\<rparr>"
  define s5 where "s5 = snd (applespi_send_cmd_msg 0 b3)"
  have a0: "\<not> drain a0" "\<not> cmd_msg_queued a0" "pending a0" "want_init_cmd a0"
    "cmd_msg_cntr a0 = 0" "sent_kinds a0 = []" "\<not> want_cl_led_on a0" "\<not> have_cl_led_on a0"
    by (simp_all add: a0_def applespi_alloc_def pending_def sent_kinds_def writes_queued_def)
  have s1: "\<not> drain s1" "cmd_msg_queued s1" "\<not> want_init_cmd s1" "cmd_msg_cntr s1 = 1"
    "sent_kinds s1 = [(0x0252, 0)]" "\<not> have_cl_led_on s1"
    unfolding s1_def
    using a0 send_config(1,2,5) [OF a0(1,2), of 0] send_counter(2) [OF a0(1,2), of 0]
      send_sent_kinds [OF a0(1,2,3)]
    by (simp_all add: send_frame)
  have e1: "applespi_init 0 applespi_alloc = s1"
    by (simp add: applespi_init_def s1_def a0_def)
  have e2: "snd (applespi_set_capsl_led True 0 s1) = a1"
    using s1(2) by (simp add: applespi_set_capsl_led_def a1_def send_blocked)
  have a1: "\<not> drain a1"
    using s1(1) by (simp add: a1_def)
  have e3: "applespi_msg_complete 0 True True a1 = s3"
    unfolding s3_def b1_def using a1 by (rule msg_complete_write_send)
  have b1: "\<not> drain b1" "\<not> cmd_msg_queued b1" "pending b1" "\<not> want_init_cmd b1"
    "want_cl_led_on b1 \<noteq> have_cl_led_on b1" "cmd_msg_cntr b1 = 1"
    "sent_kinds b1 = [(0x0252, 0)]"
    using s1 by (simp_all add: b1_def a1_def pending_def)
  have s3: "\<not> drain s3" "cmd_msg_queued s3" "cmd_msg_cntr s3 = 2"
    "sent_kinds s3 = [(0x0252, 0), (0x0151, 1)]"
    unfolding s3_def
    using b1 send_config(5) [OF b1(1,2), of 0] send_counter(2) [OF b1(1,2), of 0]
      send_sent_kinds [OF b1(1,2,3)]
    by (simp_all add: send_frame)
  have e4: "applespi_init 0 s3 = a3"
    using s3(2) by (simp add: applespi_init_def a3_def send_blocked)
  have a3: "\<not> drain a3"
    using s3(1) by (simp add: a3_def)
  have e5: "applespi_msg_complete 0 True True a3 = s5"
    unfolding s5_def b3_def using a3 by (rule msg_complete_write_send)
  have b3: "\<not> drain b3" "\<not> cmd_msg_queued b3" "pending b3" "want_init_cmd b3"
    "cmd_msg_cntr b3 = 2" "sent_kinds b3 = [(0x0252, 0), (0x0151, 1)]"
    using s3 by (simp_all add: b3_def a3_def pending_def)
  have s5: "sent_kinds s5 = [(0x0252, 0), (0x0151, 1), (0x0252, 2)]"
    unfolding s5_def using b3 send_sent_kinds [OF b3(1,2,3)] by simp
  show ?thesis
    by (simp add: counters_demo_def e1 e2 e3 e4 e5 s5)
qed

subsection \<open>C4: the backlight level mapping\<close>

text \<open>
  C4 (as the code has it). The mapping is \<open>0\<close> at \<open>0\<close> and \<open>MIN_KBD_BL_LEVEL\<close> at
  \<open>1\<close>, it is monotonically non-decreasing on \<open>0..255\<close> and stays within
  \<open>MIN_KBD_BL_LEVEL..MAX_KBD_BL_LEVEL\<close> for a brightness of \<open>1..255\<close>; for a brightness
  \<open>v\<close> of \<open>1..254\<close> it is \<open>v * (MAX - MIN) / 255\<close> rounded down (not to the nearest
  integer) plus \<open>MIN\<close>.
\<close>

theorem device_level_truncates:
  "device_level 0 = 0 \<and> device_level 1 = MIN_KBD_BL_LEVEL
   \<and> (u \<le> v \<and> v \<le> 255 \<longrightarrow> device_level u \<le> device_level v)
   \<and> (v \<noteq> 0 \<and> v \<le> 255 \<longrightarrow>
        MIN_KBD_BL_LEVEL \<le> device_level v \<and> device_level v \<le> MAX_KBD_BL_LEVEL)
   \<and> (v \<noteq> 0 \<and> v \<le> 254 \<longrightarrow>
        int (unat (device_level v)) = \<lfloor>real (unat v) * (255 - 32) / 255\<rfloor> + 32)"
proof -
  have "device_level 0 = 0"
    by (simp add: device_level_def)
  moreover have "device_level 1 = MIN_KBD_BL_LEVEL"
    by (simp add: device_level_def KBD_BL_LEVEL_ADJ_value KBD_BL_LEVEL_SCALE_def
        MIN_KBD_BL_LEVEL_def)
  ultimately show ?thesis
    using device_level_mono [of u v] device_level_range [of v] device_level_floor [of v]
    by blast
qed

theorem device_level_truncates_witness:
  "(100 :: u32) \<le> 200 \<and> (200 :: u32) \<le> 254 \<and> (200 :: u32) \<noteq> 0
   \<and> device_level 100 \<le> device_level 200
   \<and> MIN_KBD_BL_LEVEL \<le> device_level 200 \<and> device_level 200 \<le> MAX_KBD_BL_LEVEL
   \<and> int (unat (device_level 200)) = \<lfloor>real (unat (200 :: u32)) * (255 - 32) / 255\<rfloor> + 32"
  using device_level_truncates [of 100 200] by simp

text \<open>
  C4 (as the spec states it) fails at the top of the range and in the rounding: the
  brightness 255 gives 254, not \<open>MAX_KBD_BL_LEVEL\<close>, and the brightness 1 gives 32 where
  the formula of the spec gives 33.
\<close>

theorem device_level_counterexample:
  "device_level 255 = 254 \<and> device_level 255 \<noteq> MAX_KBD_BL_LEVEL
   \<and> device_level_spec 255 = 255
   \<and> device_level 1 = 32 \<and> device_level_spec 1 = 33"
  by (simp add: device_level_def KBD_BL_LEVEL_ADJ_value KBD_BL_LEVEL_SCALE_def
      MIN_KBD_BL_LEVEL_def MAX_KBD_BL_LEVEL_def device_level_spec_def round_def)

subsection \<open>C5: the device-ready handler\<close>

text \<open>
  C5 (as the code has it). \<^verbatim>\<open>applespi_notify\<close> submits a read whatever the values of
  \<^verbatim>\<open>drain\<close> and \<^verbatim>\<open>read_active\<close>: when \<^verbatim>\<open>spi_async\<close> accepts it, one more read is queued
  and \<^verbatim>\<open>read_active\<close> is set; when it refuses, no read is queued and \<^verbatim>\<open>read_active\<close> is
  unchanged. The other exchange flags are never touched.
\<close>

theorem notify_always_reads:
  "reads_queued (applespi_notify 0 a) = Suc (reads_queued a)
   \<and> read_active (applespi_notify 0 a)
   \<and> (sts \<noteq> 0 \<longrightarrow> reads_queued (applespi_notify sts a) = reads_queued a
                  \<and> read_active (applespi_notify sts a) = read_active a)
   \<and> drain (applespi_notify sts a) = drain a
   \<and> write_active (applespi_notify sts a) = write_active a
   \<and> cmd_msg_queued (applespi_notify sts a) = cmd_msg_queued a"
  by (simp add: applespi_notify_def Let_def reads_queued_emit)

theorem notify_always_reads_witness:
  "(-5 :: int) \<noteq> 0
   \<and> reads_queued (applespi_notify (-5) applespi_alloc) = reads_queued applespi_alloc
   \<and> read_active (applespi_notify (-5) applespi_alloc) = read_active applespi_alloc"
  using notify_always_reads [of applespi_alloc "-5"] by simp

text \<open>
  C5 (as the spec states it) fails: with \<^verbatim>\<open>drain\<close> and \<^verbatim>\<open>read_active\<close> both set, the
  handler still queues a read.
\<close>

theorem notify_counterexample:
  "drain (applespi_alloc\<lparr>drain := True, read_active := True\<rparr>)
   \<and> read_active (applespi_alloc\<lparr>drain := True, read_active := True\<rparr>)
   \<and> reads_queued (applespi_alloc\<lparr>drain := True, read_active := True\<rparr>) = 0
   \<and> reads_queued (applespi_notify 0 (applespi_alloc\<lparr>drain := True, read_active := True\<rparr>)) = 1"
  by (simp add: applespi_notify_def Let_def reads_queued_emit)
     (simp add: reads_queued_def applespi_alloc_def)

subsection \<open>C6: the flags after a read completes\<close>

text \<open>
  C6 (as the code has it). When a read completes without a transport error:
  a packet with a valid crc that concludes a message, accepted or rejected, clears
  \<^verbatim>\<open>read_active\<close>; a packet with a valid crc that is the first part of a longer message
  changes no flag; a packet with a bad crc while draining clears \<^verbatim>\<open>read_active\<close> and
  \<^verbatim>\<open>write_active\<close> and wakes the drain waiters; a packet with a bad crc while not draining
  changes no flag and wakes nobody.
\<close>

theorem read_completion_flags:
  fixes sts status a
  defines "r \<equiv> applespi_async_read_complete sts status a"
  defines "crc_ok \<equiv> applespi_verify_crc (take 256 (rx_buffer a))"
  shows
    "(0 \<le> status \<and> crc_ok \<and> fst (applespi_reassemble a) \<noteq> Incomplete \<longrightarrow> \<not> read_active r)
     \<and> (0 \<le> status \<and> crc_ok \<and> fst (applespi_reassemble a) = Incomplete \<longrightarrow>
          read_active r = read_active a \<and> write_active r = write_active a
          \<and> trace r = trace a @ [Finish_gpe])
     \<and> (0 \<le> status \<and> \<not> crc_ok \<and> drain a \<longrightarrow>
          \<not> read_active r \<and> \<not> write_active r
          \<and> trace r = trace a @ [Warn Crc_mismatch, Wake_up_all, Finish_gpe])
     \<and> (0 \<le> status \<and> \<not> crc_ok \<and> \<not> drain a \<longrightarrow>
          read_active r = read_active a \<and> write_active r = write_active a
          \<and> trace r = trace a @ [Warn Crc_mismatch, Finish_gpe])"
proof -
  have 1: "0 \<le> status \<Longrightarrow> crc_ok \<Longrightarrow> fst (applespi_reassemble a) \<noteq> Incomplete \<Longrightarrow>
           \<not> read_active r"
    unfolding r_def crc_ok_def
    by (simp add: applespi_async_read_complete_def got_data_read_active)
  have 2: "0 \<le> status \<Longrightarrow> crc_ok \<Longrightarrow> fst (applespi_reassemble a) = Incomplete \<Longrightarrow>
           read_active r = read_active a \<and> write_active r = write_active a
           \<and> trace r = trace a @ [Finish_gpe]"
    unfolding r_def crc_ok_def
    using reassemble_frame(3,5,6) [of a]
    by (cases "applespi_reassemble a")
       (simp add: applespi_async_read_complete_def applespi_got_data_def)
  have 3: "0 \<le> status \<Longrightarrow> \<not> crc_ok \<Longrightarrow> drain a \<Longrightarrow>
          \<not> read_active r \<and> \<not> write_active r
          \<and> trace r = trace a @ [Warn Crc_mismatch, Wake_up_all, Finish_gpe]"
    unfolding r_def crc_ok_def
    by (simp add: applespi_async_read_complete_def applespi_got_data_def Let_def)
  have 4: "0 \<le> status \<Longrightarrow> \<not> crc_ok \<Longrightarrow> \<not> drain a \<Longrightarrow>
          read_active r = read_active a \<and> write_active r = write_active a
          \<and> trace r = trace a @ [Warn Crc_mismatch, Finish_gpe]"
    unfolding r_def crc_ok_def
    by (simp add: applespi_async_read_complete_def applespi_got_data_def Let_def)
  show ?thesis
    using 1 2 3 4 by blast
qed

text \<open>
  The witness takes one state for each case, all with a read queued: a corrupted packet
  while draining, the same while not draining, a packet with a valid crc that is
  rejected for its offset, and the first packet of a two-packet message.
\<close>

theorem read_completion_flags_witness:
  "(0 :: int) \<le> 0 \<and> \<not> applespi_verify_crc (take 256 (rx_buffer (applespi_drain_begin reading)))
   \<and> drain (applespi_drain_begin reading) \<and> read_active (applespi_drain_begin reading)
   \<and> \<not> read_active (applespi_async_read_complete 0 0 (applespi_drain_begin reading))
   \<and> \<not> write_active (applespi_async_read_complete 0 0 (applespi_drain_begin reading))
   \<and> trace (applespi_async_read_complete 0 0 (applespi_drain_begin reading))
       = trace (applespi_drain_begin reading) @ [Warn Crc_mismatch, Wake_up_all, Finish_gpe]
   \<and> \<not> drain reading \<and> read_active reading
   \<and> read_active (applespi_async_read_complete 0 0 reading)
   \<and> applespi_verify_crc (take 256 (rx_buffer reading_stray))
   \<and> fst (applespi_reassemble reading_stray) \<noteq> Incomplete \<and> read_active reading_stray
   \<and> \<not> read_active (applespi_async_read_complete 0 0 reading_stray)
   \<and> applespi_verify_crc (take 256 (rx_buffer reading_frag1))
   \<and> fst (applespi_reassemble reading_frag1) = Incomplete \<and> read_active reading_frag1
   \<and> read_active (applespi_async_read_complete 0 0 reading_frag1)"
proof -
  have h: "\<not> applespi_verify_crc (take 256 (rx_buffer (applespi_drain_begin reading)))"
    "drain (applespi_drain_begin reading)" "read_active (applespi_drain_begin reading)"
    by (simp_all add: applespi_drain_begin_def reading_facts bad_crc_frame_crc)
  have g: "\<not> applespi_verify_crc (take 256 (rx_buffer reading))"
    by (simp add: reading_facts bad_crc_frame_crc)
  from read_completion_flags [of 0 "applespi_drain_begin reading" 0]
  have 1: "\<not> read_active (applespi_async_read_complete 0 0 (applespi_drain_begin reading))
     \<and> \<not> write_active (applespi_async_read_complete 0 0 (applespi_drain_begin reading))
     \<and> trace (applespi_async_read_complete 0 0 (applespi_drain_begin reading))
         = trace (applespi_drain_begin reading) @ [Warn Crc_mismatch, Wake_up_all, Finish_gpe]"
    using h by simp
  from read_completion_flags [of 0 reading 0]
  have 2: "read_active (applespi_async_read_complete 0 0 reading)"
    using g reading_facts by simp
  from read_completion_flags [of 0 reading_stray 0]
  have 3: "\<not> read_active (applespi_async_read_complete 0 0 reading_stray)"
    using reading_stray_facts by simp
  from read_completion_flags [of 0 reading_frag1 0]
  have 4: "read_active (applespi_async_read_complete 0 0 reading_frag1)"
    using reading_frag1_facts by simp
  show ?thesis
    using h reading_facts reading_stray_facts reading_frag1_facts 1 2 3 4 by simp
qed

text \<open>
  C6 (as the spec states it) fails: a read was queued, the packet arrives with a bad crc
  while the driver is not draining, and \<^verbatim>\<open>read_active\<close> is still set afterwards.
\<close>

theorem read_completion_counterexample:
  "read_active reading \<and> \<not> drain reading
   \<and> \<not> applespi_verify_crc (take 256 (rx_buffer reading))
   \<and> read_active (applespi_async_read_complete 0 0 reading)"
  by (simp add: reading_facts bad_crc_frame_crc applespi_async_read_complete_def
      applespi_got_data_def Let_def)

subsection \<open>C7: a message split over two packets\<close>

text \<open>
  C7. Let a message of 300 bytes carry its declared length (290) and a valid crc, and
  let two packets carry its bytes 0..245 (offset 0, remaining 54, length 246) and
  246..299 (offset 246, remaining 0, length 54). From a state with no partial message,
  the first packet is stored and awaits the rest; the second completes the message, the
  first 300 bytes of \<^verbatim>\<open>msg_buf\<close> are the original message, and \<^verbatim>\<open>saved_msg_len\<close> is 0
  again. The second packet fed first is rejected for its unexpected offset (got 246,
  expected 0) and leaves the state as it was, so that the two packets fed in order
  afterwards are reassembled as before.
\<close>

theorem reassemble_two_packets:
  fixes msg p1 p2 a
  assumes msg: "length msg = 300" "msg_length msg = 290" "applespi_verify_crc msg"
    and p1: "pkt_offset p1 = 0" "pkt_remaining p1 = 54" "pkt_length p1 = 246"
      "pkt_data p1 = take 246 msg"
    and p2: "pkt_offset p2 = 246" "pkt_remaining p2 = 0" "pkt_length p2 = 54"
      "take 54 (pkt_data p2) = drop 246 msg"
    and a: "saved_msg_len a = 0" "length (msg_buf a) = 512"
  defines "r1 \<equiv> applespi_reassemble (a\<lparr>rx_buffer := p1\<rparr>)"
  defines "r2 \<equiv> applespi_reassemble ((snd r1)\<lparr>rx_buffer := p2\<rparr>)"
  defines "x \<equiv> applespi_reassemble (a\<lparr>rx_buffer := p2\<rparr>)"
  shows "fst r1 = Incomplete \<and> saved_msg_len (snd r1) = 246
     \<and> fst r2 = Complete In_msg_buf 300 \<and> take 300 (msg_buf (snd r2)) = msg
     \<and> saved_msg_len (snd r2) = 0
     \<and> x = (Rejected (Unexpected_offset 246 0), a\<lparr>rx_buffer := p2\<rparr>)
     \<and> applespi_reassemble ((snd x)\<lparr>rx_buffer := p1\<rparr>) = r1"
proof -
  have r1: "r1 = (Incomplete, a\<lparr>rx_buffer := p1,
      msg_buf := take 246 msg @ drop 246 (msg_buf a), saved_msg_len := 246\<rparr>)"
    unfolding r1_def using p1 a msg(1)
    by (simp add: applespi_reassemble_def Let_def memcpy_def)
  have mc: "memcpy (take 246 msg @ drop 246 (msg_buf a)) 246 (pkt_data p2) 54
            = msg @ drop 300 (msg_buf a)"
    using msg(1) a(2) by (simp add: memcpy_def p2(4) take_drop_append)
  have v: "verify_message In_msg_buf 300
             (a\<lparr>rx_buffer := p2, msg_buf := msg @ drop 300 (msg_buf a), saved_msg_len := 0\<rparr>)
           = (Complete In_msg_buf 300,
              a\<lparr>rx_buffer := p2, msg_buf := msg @ drop 300 (msg_buf a), saved_msg_len := 0\<rparr>)"
    using msg by (simp add: verify_message_def the_message_def msg_length_append)
  have r2: "r2 = (Complete In_msg_buf 300, a\<lparr>rx_buffer := p2,
      msg_buf := msg @ drop 300 (msg_buf a), saved_msg_len := 0\<rparr>)"
    unfolding r2_def r1 using p2(1,2,3)
    by (simp add: applespi_reassemble_def Let_def mc v)
  have x: "x = (Rejected (Unexpected_offset 246 0), a\<lparr>rx_buffer := p2\<rparr>)"
    unfolding x_def using p2 a(1)
    by (simp add: applespi_reassemble_def Let_def)
  have l: "applespi_reassemble ((snd x)\<lparr>rx_buffer := p1\<rparr>) = r1"
    by (simp add: x r1_def)
  show ?thesis
    using msg(1) l by (simp add: r1 r2 x)
qed

theorem reassemble_two_packets_witness:
  "length two_packet_msg = 300 \<and> msg_length two_packet_msg = 290
   \<and> applespi_verify_crc two_packet_msg
   \<and> pkt_offset frag1 = 0 \<and> pkt_remaining frag1 = 54 \<and> pkt_length frag1 = 246
   \<and> pkt_data frag1 = take 246 two_packet_msg
   \<and> pkt_offset frag2 = 246 \<and> pkt_remaining frag2 = 0 \<and> pkt_length frag2 = 54
   \<and> take 54 (pkt_data frag2) = drop 246 two_packet_msg
   \<and> saved_msg_len applespi_alloc = 0 \<and> length (msg_buf applespi_alloc) = 512
   \<and> fst (applespi_reassemble (applespi_alloc\<lparr>rx_buffer := frag1\<rparr>)) = Incomplete
   \<and> fst (applespi_reassemble
        ((snd (applespi_reassemble (applespi_alloc\<lparr>rx_buffer := frag1\<rparr>)))\<lparr>rx_buffer := frag2\<rparr>))
       = Complete In_msg_buf 300
   \<and> take 300 (msg_buf (snd (applespi_reassemble
        ((snd (applespi_reassemble (applespi_alloc\<lparr>rx_buffer := frag1\<rparr>)))\<lparr>rx_buffer := frag2\<rparr>))))
       = two_packet_msg
   \<and> fst (applespi_reassemble (applespi_alloc\<lparr>rx_buffer := frag2\<rparr>))
       = Rejected (Unexpected_offset 246 0)"
proof -
  have f1: "pkt_offset frag1 = 0" "pkt_remaining frag1 = 54" "pkt_length frag1 = 246"
    "pkt_data frag1 = take 246 two_packet_msg"
    by (simp_all add: frag1_def spi_packet_fields spi_packet_data two_packet_msg_facts)
  have f2: "pkt_offset frag2 = 246" "pkt_remaining frag2 = 0" "pkt_length frag2 = 54"
    "take 54 (pkt_data frag2) = drop 246 two_packet_msg"
    by (simp_all add: frag2_def spi_packet_fields spi_packet_data two_packet_msg_facts)
  have a: "saved_msg_len applespi_alloc = 0" "length (msg_buf applespi_alloc) = 512"
    by (simp_all add: applespi_alloc_def)
  from reassemble_two_packets [OF two_packet_msg_facts f1 f2 a]
  show ?thesis
    using two_packet_msg_facts f1 f2 a by simp
qed

subsection \<open>C8: the priority of the command builder\<close>

text \<open>
  C8. When it is neither draining nor waiting for a queued write,
  \<^verbatim>\<open>applespi_send_cmd_msg\<close> builds and submits exactly one packet: the init command
  (type 0x0252, to the touchpad) if it is wanted; else the caps-lock command (0x0151, to
  the keyboard) if wanted and applied differ; else the backlight command (0xB051) if
  wanted and applied differ; else it submits nothing and returns 0. With init and
  caps-lock both pending, init goes first and the caps-lock command is the one built
  when the init exchange completes.
\<close>

theorem send_cmd_msg_priority:
  fixes sts sts' a rc
  assumes "\<not> drain a" "\<not> cmd_msg_queued a"
  defines "r \<equiv> snd (applespi_send_cmd_msg sts a)"
  defines "sent \<equiv> Spi_async_write (tx_buffer r) sts
                    # (if sts = 0 then [] else [Warn (Error_queueing_write sts)])"
  shows
    "(want_init_cmd a \<longrightarrow>
        trace r = trace a @ sent \<and> pkt_device (tx_buffer r) = PACKET_DEV_TPAD
        \<and> msg_type (pkt_data (tx_buffer r)) = 0x0252)
     \<and> (\<not> want_init_cmd a \<and> want_cl_led_on a \<noteq> have_cl_led_on a \<longrightarrow>
        trace r = trace a @ sent \<and> pkt_device (tx_buffer r) = PACKET_DEV_KEYB
        \<and> msg_type (pkt_data (tx_buffer r)) = 0x0151)
     \<and> (\<not> want_init_cmd a \<and> want_cl_led_on a = have_cl_led_on a
          \<and> want_bl_level a \<noteq> have_bl_level a \<longrightarrow>
        trace r = trace a @ sent \<and> pkt_device (tx_buffer r) = PACKET_DEV_KEYB
        \<and> msg_type (pkt_data (tx_buffer r)) = 0xB051)
     \<and> (\<not> want_init_cmd a \<and> want_cl_led_on a = have_cl_led_on a
          \<and> want_bl_level a = have_bl_level a \<longrightarrow>
        fst (applespi_send_cmd_msg sts a) = 0 \<and> trace r = trace a)
     \<and> (want_init_cmd a \<and> want_cl_led_on a \<noteq> have_cl_led_on a \<longrightarrow>
        pkt_device (tx_buffer (applespi_msg_complete sts' True rc r)) = PACKET_DEV_KEYB
        \<and> msg_type (pkt_data (tx_buffer (applespi_msg_complete sts' True rc r))) = 0x0151)"
proof -
  have t: "trace r = trace a @ (if pending a then sent else [])"
    unfolding r_def sent_def using assms(1,2) by (rule send_config(4))
  have n: "\<not> want_init_cmd a \<and> want_cl_led_on a = have_cl_led_on a
             \<and> want_bl_level a = have_bl_level a \<Longrightarrow>
           fst (applespi_send_cmd_msg sts a) = 0"
    using assms(1,2) by (simp add: send_none)
  have d: "\<not> drain r" "want_cl_led_on r = want_cl_led_on a"
    unfolding r_def using assms(1) by (simp_all add: send_frame)
  have c: "\<not> want_init_cmd r"
    "have_cl_led_on r = (if want_init_cmd a then have_cl_led_on a else want_cl_led_on a)"
    unfolding r_def using assms(1,2) by (rule send_config(1), rule send_config(2))
  have x: "want_init_cmd a \<and> want_cl_led_on a \<noteq> have_cl_led_on a \<Longrightarrow>
        pkt_device (tx_buffer (applespi_msg_complete sts' True rc r)) = PACKET_DEV_KEYB
        \<and> msg_type (pkt_data (tx_buffer (applespi_msg_complete sts' True rc r))) = 0x0151"
    using msg_complete_next(1) [OF d(1) c(1), of sts' rc] d(2) c(2) by simp
  show ?thesis
    using t n x send_packet_kind [OF assms(1,2), of sts]
    unfolding r_def [symmetric] pending_def by auto
qed

text \<open>
  The witness takes one state for each branch: everything pending, only the caps-lock
  led, only the backlight, nothing.
\<close>

theorem send_cmd_msg_priority_witness:
  "\<not> drain all_pending \<and> \<not> cmd_msg_queued all_pending \<and> want_init_cmd all_pending
   \<and> want_cl_led_on all_pending \<noteq> have_cl_led_on all_pending
   \<and> want_bl_level all_pending \<noteq> have_bl_level all_pending
   \<and> msg_type (pkt_data (tx_buffer (snd (applespi_send_cmd_msg 0 all_pending)))) = 0x0252
   \<and> msg_type (pkt_data (tx_buffer
        (applespi_msg_complete 0 True True (snd (applespi_send_cmd_msg 0 all_pending))))) = 0x0151
   \<and> \<not> want_init_cmd capsl_wanted
   \<and> want_cl_led_on capsl_wanted \<noteq> have_cl_led_on capsl_wanted
   \<and> msg_type (pkt_data (tx_buffer (snd (applespi_send_cmd_msg 0 capsl_wanted)))) = 0x0151
   \<and> \<not> want_init_cmd bl_wanted \<and> want_cl_led_on bl_wanted = have_cl_led_on bl_wanted
   \<and> want_bl_level bl_wanted \<noteq> have_bl_level bl_wanted
   \<and> msg_type (pkt_data (tx_buffer (snd (applespi_send_cmd_msg 0 bl_wanted)))) = 0xB051
   \<and> \<not> pending applespi_alloc
   \<and> trace (snd (applespi_send_cmd_msg 0 applespi_alloc)) = trace applespi_alloc"
proof -
  have h: "\<not> drain all_pending" "\<not> cmd_msg_queued all_pending" "want_init_cmd all_pending"
    "want_cl_led_on all_pending \<noteq> have_cl_led_on all_pending"
    "want_bl_level all_pending \<noteq> have_bl_level all_pending"
    by (simp_all add: all_pending_def applespi_alloc_def)
  have c: "\<not> drain capsl_wanted" "\<not> cmd_msg_queued capsl_wanted"
    "\<not> want_init_cmd capsl_wanted" "want_cl_led_on capsl_wanted \<noteq> have_cl_led_on capsl_wanted"
    by (simp_all add: capsl_wanted_def applespi_alloc_def)
  have b: "\<not> drain bl_wanted" "\<not> cmd_msg_queued bl_wanted" "\<not> want_init_cmd bl_wanted"
    "want_cl_led_on bl_wanted = have_cl_led_on bl_wanted"
    "want_bl_level bl_wanted \<noteq> have_bl_level bl_wanted"
    by (simp_all add: bl_wanted_def applespi_alloc_def)
  have n: "\<not> drain applespi_alloc" "\<not> cmd_msg_queued applespi_alloc"
    "\<not> want_init_cmd applespi_alloc"
    "want_cl_led_on applespi_alloc = have_cl_led_on applespi_alloc"
    "want_bl_level applespi_alloc = have_bl_level applespi_alloc"
    by (simp_all add: applespi_alloc_def)
  have p: "\<not> pending applespi_alloc"
    using n by (simp add: pending_def)
  from send_cmd_msg_priority [OF h(1,2), of 0 0 True]
  have 1: "msg_type (pkt_data (tx_buffer (snd (applespi_send_cmd_msg 0 all_pending)))) = 0x0252
     \<and> msg_type (pkt_data (tx_buffer
          (applespi_msg_complete 0 True True (snd (applespi_send_cmd_msg 0 all_pending))))) = 0x0151"
    using h(3,4) by blast
  from send_cmd_msg_priority [OF c(1,2), of 0 0 True]
  have 2: "msg_type (pkt_data (tx_buffer (snd (applespi_send_cmd_msg 0 capsl_wanted)))) = 0x0151"
    using c(3,4) by blast
  from send_cmd_msg_priority [OF b(1,2), of 0 0 True]
  have 3: "msg_type (pkt_data (tx_buffer (snd (applespi_send_cmd_msg 0 bl_wanted)))) = 0xB051"
    using b(3,4,5) by blast
  from send_cmd_msg_priority [OF n(1,2), of 0 0 True]
  have 4: "trace (snd (applespi_send_cmd_msg 0 applespi_alloc)) = trace applespi_alloc"
    using n(3,4,5) by blast
  show ?thesis
    using h c b p 1 2 3 4 by simp
qed

subsection \<open>C9: when the applied state is updated\<close>

text \<open>
  C9 (as the code has it). \<^verbatim>\<open>applespi_send_cmd_msg\<close> submits something only if a field is
  pending, and it marks the chosen field as applied (or clears the init request) when it
  builds the command, before \<^verbatim>\<open>spi_async\<close> is called and whatever it returns: also when the
  submission fails, in which case no write is queued and \<^verbatim>\<open>cmd_msg_queued\<close> stays clear.
  The wanted values are never changed.
\<close>

theorem applied_set_when_built:
  fixes sts a
  assumes "\<not> drain a" "\<not> cmd_msg_queued a"
  defines "r \<equiv> snd (applespi_send_cmd_msg sts a)"
  shows
    "(trace r \<noteq> trace a \<longrightarrow>
        want_init_cmd a \<or> want_cl_led_on a \<noteq> have_cl_led_on a
        \<or> want_bl_level a \<noteq> have_bl_level a)
     \<and> (want_init_cmd a \<longrightarrow>
          \<not> want_init_cmd r \<and> have_cl_led_on r = have_cl_led_on a
          \<and> have_bl_level r = have_bl_level a)
     \<and> (\<not> want_init_cmd a \<and> want_cl_led_on a \<noteq> have_cl_led_on a \<longrightarrow>
          have_cl_led_on r = want_cl_led_on a \<and> have_bl_level r = have_bl_level a)
     \<and> (\<not> want_init_cmd a \<and> want_cl_led_on a = have_cl_led_on a
          \<and> want_bl_level a \<noteq> have_bl_level a \<longrightarrow>
          have_bl_level r = want_bl_level a \<and> have_cl_led_on r = have_cl_led_on a)
     \<and> (sts \<noteq> 0 \<longrightarrow> \<not> cmd_msg_queued r \<and> writes_queued r = writes_queued a)
     \<and> want_cl_led_on r = want_cl_led_on a \<and> want_bl_level r = want_bl_level a"
proof -
  have t: "trace r \<noteq> trace a \<Longrightarrow> pending a"
    unfolding r_def using send_config(4) [OF assms(1,2), of sts] by (auto split: if_splits)
  have f: "sts \<noteq> 0 \<Longrightarrow> \<not> cmd_msg_queued r \<and> writes_queued r = writes_queued a"
    unfolding r_def using send_writes(3) [of sts a] assms(2) by simp
  have w: "want_cl_led_on r = want_cl_led_on a" "want_bl_level r = want_bl_level a"
    unfolding r_def by (simp_all add: send_frame)
  show ?thesis
    using t f w send_config(1,2,3) [OF assms(1,2), of sts]
    unfolding r_def [symmetric] pending_def by auto
qed

theorem applied_set_when_built_witness:
  "\<not> drain capsl_wanted \<and> \<not> cmd_msg_queued capsl_wanted \<and> \<not> want_init_cmd capsl_wanted
   \<and> want_cl_led_on capsl_wanted \<noteq> have_cl_led_on capsl_wanted \<and> (-5 :: int) \<noteq> 0
   \<and> have_cl_led_on (snd (applespi_send_cmd_msg (-5) capsl_wanted)) = want_cl_led_on capsl_wanted
   \<and> \<not> cmd_msg_queued (snd (applespi_send_cmd_msg (-5) capsl_wanted))
   \<and> writes_queued (snd (applespi_send_cmd_msg (-5) capsl_wanted)) = writes_queued capsl_wanted"
proof -
  have h: "\<not> drain capsl_wanted" "\<not> cmd_msg_queued capsl_wanted" "\<not> want_init_cmd capsl_wanted"
    "want_cl_led_on capsl_wanted \<noteq> have_cl_led_on capsl_wanted" "(-5 :: int) \<noteq> 0"
    by (simp_all add: capsl_wanted_def applespi_alloc_def)
  from applied_set_when_built [OF h(1,2), of "-5"] show ?thesis
    using h by blast
qed

text \<open>
  C9 (as the spec states it) fails: with the caps-lock led wanted on and \<^verbatim>\<open>spi_async\<close>
  returning -5, no write is queued, yet the led is recorded as on.
\<close>

theorem applied_counterexample:
  "\<not> drain capsl_wanted \<and> \<not> cmd_msg_queued capsl_wanted
   \<and> \<not> have_cl_led_on capsl_wanted
   \<and> writes_queued (snd (applespi_send_cmd_msg (-5) capsl_wanted)) = writes_queued capsl_wanted
   \<and> \<not> cmd_msg_queued (snd (applespi_send_cmd_msg (-5) capsl_wanted))
   \<and> have_cl_led_on (snd (applespi_send_cmd_msg (-5) capsl_wanted))"
proof -
  have h: "\<not> drain capsl_wanted" "\<not> cmd_msg_queued capsl_wanted" "\<not> want_init_cmd capsl_wanted"
    "want_cl_led_on capsl_wanted" "\<not> have_cl_led_on capsl_wanted"
    by (simp_all add: capsl_wanted_def applespi_alloc_def)
  show ?thesis
    using h send_config(2) [OF h(1,2), of "-5"] send_writes(3) [of "-5" capsl_wanted]
    by simp
qed

subsection \<open>C10: resume\<close>

text \<open>
  C10. \<^verbatim>\<open>applespi_resume\<close> first clears \<^verbatim>\<open>drain\<close>, \<^verbatim>\<open>cmd_msg_queued\<close>, \<^verbatim>\<open>read_active\<close>
  and \<^verbatim>\<open>write_active\<close>, sets the applied caps-lock led to off and the applied backlight
  level to 0 and leaves the wanted values alone (the state \<open>b\<close>); from there it runs
  \<^verbatim>\<open>applespi_init\<close>, which submits the init command, so that on return the two write
  flags are set again exactly if that submission was accepted. The applied values are
  still reset then. Hence, when the init exchange completes, the caps-lock command is
  built if the led is wanted on, the backlight command if the led is wanted off and the
  wanted level is not 0, and when both are wanted the backlight command follows on the
  completion of the caps-lock exchange: whether or not the wanted values had been applied
  before the suspend.
\<close>

theorem resume_resets_applied:
  fixes sts sts1 sts2 a rc1 rc2
  defines "b \<equiv> applespi_resume_flags a"
  defines "r \<equiv> applespi_resume sts a"
  defines "r1 \<equiv> applespi_msg_complete sts1 True rc1 r"
  defines "r2 \<equiv> applespi_msg_complete sts2 True rc2 r1"
  shows
    "\<not> drain b \<and> \<not> cmd_msg_queued b \<and> \<not> write_active b \<and> \<not> read_active b
     \<and> \<not> have_cl_led_on b \<and> have_bl_level b = 0
     \<and> want_cl_led_on b = want_cl_led_on a \<and> want_bl_level b = want_bl_level a
     \<and> r = applespi_init sts b
     \<and> msg_type (pkt_data (tx_buffer r)) = 0x0252
     \<and> trace r = trace a @ Spi_async_write (tx_buffer r) sts
                  # (if sts = 0 then [] else [Warn (Error_queueing_write sts)])
     \<and> \<not> drain r \<and> \<not> read_active r
     \<and> cmd_msg_queued r = (sts = 0) \<and> write_active r = (sts = 0)
     \<and> \<not> have_cl_led_on r \<and> have_bl_level r = 0
     \<and> want_cl_led_on r = want_cl_led_on a \<and> want_bl_level r = want_bl_level a
     \<and> (want_cl_led_on a \<longrightarrow>
          msg_type (pkt_data (tx_buffer r1)) = 0x0151
          \<and> writes_queued r1 = writes_queued r @ (if sts1 = 0 then [tx_buffer r1] else []))
     \<and> (\<not> want_cl_led_on a \<and> want_bl_level a \<noteq> 0 \<longrightarrow>
          msg_type (pkt_data (tx_buffer r1)) = 0xB051
          \<and> writes_queued r1 = writes_queued r @ (if sts1 = 0 then [tx_buffer r1] else []))
     \<and> (want_cl_led_on a \<and> want_bl_level a \<noteq> 0 \<longrightarrow>
          msg_type (pkt_data (tx_buffer r2)) = 0xB051
          \<and> writes_queued r2 = writes_queued r1 @ (if sts2 = 0 then [tx_buffer r2] else []))"
proof -
  have bf: "\<not> drain b \<and> \<not> cmd_msg_queued b \<and> \<not> write_active b \<and> \<not> read_active b
     \<and> \<not> have_cl_led_on b \<and> have_bl_level b = 0
     \<and> want_cl_led_on b = want_cl_led_on a \<and> want_bl_level b = want_bl_level a"
    unfolding b_def by simp
  have ri: "r = applespi_init sts b"
    unfolding r_def b_def by (simp add: applespi_resume_def)
  note rs = resume_sends_init [of sts a, folded r_def]
  have c1: "want_cl_led_on a \<Longrightarrow>
      msg_type (pkt_data (tx_buffer r1)) = 0x0151
      \<and> writes_queued r1 = writes_queued r @ (if sts1 = 0 then [tx_buffer r1] else [])
      \<and> have_cl_led_on r1 = want_cl_led_on a \<and> have_bl_level r1 = 0"
    using msg_complete_next(1) [OF rs(4) rs(10), of sts1 rc1] rs(8,9,11)
    unfolding r1_def by simp
  have c2: "\<not> want_cl_led_on a \<Longrightarrow> want_bl_level a \<noteq> 0 \<Longrightarrow>
      msg_type (pkt_data (tx_buffer r1)) = 0xB051
      \<and> writes_queued r1 = writes_queued r @ (if sts1 = 0 then [tx_buffer r1] else [])"
    using msg_complete_next(2) [OF rs(4) rs(10), of sts1 rc1] rs(8,9,11,12)
    unfolding r1_def by simp
  note n1 = msg_complete_next(3-6) [OF rs(4) rs(10), of sts1 rc1, folded r1_def]
  have c3: "want_cl_led_on a \<Longrightarrow> want_bl_level a \<noteq> 0 \<Longrightarrow>
      msg_type (pkt_data (tx_buffer r2)) = 0xB051
      \<and> writes_queued r2 = writes_queued r1 @ (if sts2 = 0 then [tx_buffer r2] else [])"
    using msg_complete_next(2) [OF n1(1) n1(2), of sts2 rc2] c1 n1(3,4) rs(11,12)
    unfolding r2_def by simp
  show ?thesis
    using bf ri rs c1 c2 c3 by simp
qed

text \<open>
  The witness: a suspended state in which led and backlight were both applied as wanted,
  and one in which only the backlight was on.
\<close>

theorem resume_resets_applied_witness:
  "want_cl_led_on suspended \<and> have_cl_led_on suspended
   \<and> want_bl_level suspended = have_bl_level suspended \<and> want_bl_level suspended \<noteq> 0
   \<and> drain suspended
   \<and> msg_type (pkt_data (tx_buffer (applespi_resume 0 suspended))) = 0x0252
   \<and> msg_type (pkt_data (tx_buffer
        (applespi_msg_complete 0 True True (applespi_resume 0 suspended)))) = 0x0151
   \<and> msg_type (pkt_data (tx_buffer
        (applespi_msg_complete 0 True True
          (applespi_msg_complete 0 True True (applespi_resume 0 suspended))))) = 0xB051
   \<and> \<not> want_cl_led_on bl_suspended \<and> want_bl_level bl_suspended = have_bl_level bl_suspended
   \<and> want_bl_level bl_suspended \<noteq> 0
   \<and> msg_type (pkt_data (tx_buffer
        (applespi_msg_complete 0 True True (applespi_resume 0 bl_suspended)))) = 0xB051"
proof -
  have h: "want_cl_led_on suspended" "have_cl_led_on suspended"
    "want_bl_level suspended = have_bl_level suspended" "want_bl_level suspended \<noteq> 0"
    "drain suspended"
    by (simp_all add: suspended_def applespi_alloc_def)
  have b: "\<not> want_cl_led_on bl_suspended"
    "want_bl_level bl_suspended = have_bl_level bl_suspended" "want_bl_level bl_suspended \<noteq> 0"
    by (simp_all add: bl_suspended_def applespi_alloc_def)
  from resume_resets_applied [of suspended 0 0 True 0 True]
  have 1: "msg_type (pkt_data (tx_buffer (applespi_resume 0 suspended))) = 0x0252
     \<and> msg_type (pkt_data (tx_buffer
          (applespi_msg_complete 0 True True (applespi_resume 0 suspended)))) = 0x0151
     \<and> msg_type (pkt_data (tx_buffer
          (applespi_msg_complete 0 True True
            (applespi_msg_complete 0 True True (applespi_resume 0 suspended))))) = 0xB051"
    using h by blast
  from resume_resets_applied [of bl_suspended 0 0 True 0 True]
  have 2: "msg_type (pkt_data (tx_buffer
        (applespi_msg_complete 0 True True (applespi_resume 0 bl_suspended)))) = 0xB051"
    using b by blast
  show ?thesis
    using h b 1 2 by simp
qed

end
